theory Spec2Isabelle
  imports Complex_Main
begin

section \<open>JavaScript values\<close>

text \<open>
  The server of \<^verbatim>\<open>src/server.js\<close> moves JSON-like values between its clients, the
  embedding model and the vector store. A property that is absent reads as
  \<^verbatim>\<open>undefined\<close>; an object literal is the list of its properties in the order
  they are written. Numbers are rationals: a number that arrives in a JSON body is a
  finite decimal, and so are \<^verbatim>\<open>limit\<close> (which the schema declares as
  \<^verbatim>\<open>z.number()\<close>, fractions included), the weights, the scores and the vector
  components.
\<close>

datatype jsval =
    JUndefined
  | JNull
  | JBool bool
  | JNum rat
  | JStr string
  | JArr "jsval list"
  | JObj "(string \<times> jsval) list"

type_synonym jsobject = "(string \<times> jsval) list"

type_synonym vector = "rat list"

text \<open>\<^verbatim>\<open>obj.key\<close> on an object that came out of a JSON body.\<close>

definition get_prop :: "jsobject \<Rightarrow> string \<Rightarrow> jsval" where
  "get_prop obj k = (case map_of obj k of None \<Rightarrow> JUndefined | Some v \<Rightarrow> v)"

text \<open>\<^verbatim>\<open>xs[i]\<close>: \<^verbatim>\<open>undefined\<close> (here \<open>None\<close>) out of range.\<close>

definition index :: "'a list \<Rightarrow> nat \<Rightarrow> 'a option" where
  "index xs i = (if i < length xs then Some (xs ! i) else None)"

text \<open>
  \<^verbatim>\<open>xs.slice(0, end)\<close>: the end is first truncated toward zero; a negative end then
  counts from the end of the array.
\<close>

definition to_integer :: "rat \<Rightarrow> int" where
  "to_integer x = (if x < 0 then \<lceil>x\<rceil> else \<lfloor>x\<rfloor>)"

definition slice0 :: "'a list \<Rightarrow> rat \<Rightarrow> 'a list" where
  "slice0 xs e =
     (if to_integer e < 0 then take (nat (int (length xs) + to_integer e)) xs
      else take (nat (to_integer e)) xs)"

text \<open>
  The value that the text \<^verbatim>\<open>JSON.stringify(v)\<close> denotes: a property whose value is
  \<^verbatim>\<open>undefined\<close> is left out, and an \<^verbatim>\<open>undefined\<close> array element is written
  \<^verbatim>\<open>null\<close>.
\<close>

primrec json :: "jsval \<Rightarrow> jsval" where
  "json JUndefined = JUndefined"
| "json JNull = JNull"
| "json (JBool b) = JBool b"
| "json (JNum n) = JNum n"
| "json (JStr t) = JStr t"
| "json (JArr xs) = JArr (map (\<lambda>v. if v = JUndefined then JNull else v) (map json xs))"
| "json (JObj ps) = JObj (filter (\<lambda>(k, v). v \<noteq> JUndefined) (map (map_prod id json) ps))"

text \<open>The decimal text of a number inside a template literal.\<close>

fun digits :: "nat \<Rightarrow> string" where
  "digits n =
     (if n < 10 then [''0123456789'' ! n]
      else digits (n div 10) @ [''0123456789'' ! (n mod 10)])"

declare digits.simps [simp del]

section \<open>Data exchanged with the collaborators\<close>

text \<open>A point as \<^verbatim>\<open>upsert\<close> receives it: \<^verbatim>\<open>{id, vector, payload: {information, metadata, timestamp}}\<close>.\<close>

record point =
  point_id :: string
  point_vector :: "vector option"
  payload_information :: string
  payload_metadata :: jsobject
  payload_timestamp :: string

text \<open>
  A hit as \<^verbatim>\<open>search\<close> returns it. The payload is whatever the store sent: an
  object, \<^verbatim>\<open>null\<close>, or nothing (\<^verbatim>\<open>undefined\<close>).
\<close>

record scored_point =
  hit_score :: jsval
  hit_payload :: jsval

text \<open>
  The \<^verbatim>\<open>searchParams\<close> object; a property that was never assigned is \<open>None\<close>.
  \<open>sp_query\<close> is the text of \<^verbatim>\<open>{text: query}\<close>, \<open>sp_params\<close> the pair
  \<^verbatim>\<open>{vector_weight, keyword_weight}\<close>.
\<close>

record search_params =
  sp_vector :: "vector option"
  sp_limit :: rat
  sp_filter :: "jsobject option"
  sp_with_payload :: "bool option"
  sp_query :: "string option"
  sp_score_threshold :: "rat option"
  sp_params :: "(rat \<times> rat) option"

text \<open>
  What lies outside the repository: the FastEmbed model, the Qdrant client, the
  runtime's UUID generator and clock, and the configured collection name. Every call
  settles: it returns, or it rejects or throws, which is \<open>Inl\<close> of the error's
  message (a timeout is such an error). The \<open>n\<close>-th call of
  \<^verbatim>\<open>crypto.randomUUID()\<close> returns \<open>randomUUID w n\<close>, the \<open>n\<close>-th
  \<^verbatim>\<open>new Date().toISOString()\<close> returns \<open>toISOString w n\<close>.
\<close>

record world =
  COLLECTION_NAME :: string
  FastEmbed_create :: "string + unit"
  model_embed :: "string list \<Rightarrow> string + vector list"
  qdrant_search :: "string \<Rightarrow> search_params \<Rightarrow> string + scored_point list"
  qdrant_upsert :: "string \<Rightarrow> point list \<Rightarrow> string + unit"
  qdrant_getCollection :: "string \<Rightarrow> string + jsval"
  qdrant_getCollections :: "string + jsval"
  randomUUID :: "nat \<Rightarrow> string"
  toISOString :: "nat \<Rightarrow> string"

text \<open>The calls that leave the process, in the order they are made.\<close>

datatype call =
    Create
  | ModelEmbed "string list"
  | Search string search_params
  | Upsert string "point list"
  | GetCollection string
  | GetCollections

text \<open>The message a call fails with in a world, if it fails there.\<close>

definition message_of :: "string + 'a \<Rightarrow> string option" where
  "message_of r = (case r of Inl m \<Rightarrow> Some m | Inr _ \<Rightarrow> None)"

fun failure_of :: "world \<Rightarrow> call \<Rightarrow> string option" where
  "failure_of w Create = message_of (FastEmbed_create w)"
| "failure_of w (ModelEmbed texts) = message_of (model_embed w texts)"
| "failure_of w (Search c p) = message_of (qdrant_search w c p)"
| "failure_of w (Upsert c ps) = message_of (qdrant_upsert w c ps)"
| "failure_of w (GetCollection c) = message_of (qdrant_getCollection w c)"
| "failure_of w GetCollections = message_of (qdrant_getCollections w)"

section \<open>State and control flow\<close>

text \<open>
  The state a tool call can change: the \<^verbatim>\<open>initialized\<close> flag of the
  \<^verbatim>\<open>FastEmbedClient\<close>, how many UUIDs and timestamps were drawn, and the calls
  made so far. A computation returns its value, or \<open>Inl\<close> of the message of the
  error it throws, together with the new state.
\<close>

record state =
  initialized :: bool
  uuid_calls :: nat
  date_calls :: nat
  calls :: "call list"

type_synonym 'a js = "state \<Rightarrow> (string + 'a) \<times> state"

definition ret :: "'a \<Rightarrow> 'a js" where
  "ret x = (\<lambda>s. (Inr x, s))"

definition throw :: "string \<Rightarrow> 'a js" where
  "throw m = (\<lambda>s. (Inl m, s))"

definition bnd :: "'a js \<Rightarrow> ('a \<Rightarrow> 'b js) \<Rightarrow> 'b js" where
  "bnd m f = (\<lambda>s. case m s of (Inl e, s') \<Rightarrow> (Inl e, s') | (Inr x, s') \<Rightarrow> f x s')"

definition try_catch :: "'a js \<Rightarrow> (string \<Rightarrow> 'a js) \<Rightarrow> 'a js" where
  "try_catch m h = (\<lambda>s. case m s of (Inl e, s') \<Rightarrow> h e s' | (Inr x, s') \<Rightarrow> (Inr x, s'))"

definition await :: "call \<Rightarrow> string + 'a \<Rightarrow> 'a js" where
  "await c outcome = (\<lambda>s. (outcome, s\<lparr>calls := calls s @ [c]\<rparr>))"

definition crypto_randomUUID :: "world \<Rightarrow> string js" where
  "crypto_randomUUID w = (\<lambda>s. (Inr (randomUUID w (uuid_calls s)), s\<lparr>uuid_calls := Suc (uuid_calls s)\<rparr>))"

definition new_Date_toISOString :: "world \<Rightarrow> string js" where
  "new_Date_toISOString w = (\<lambda>s. (Inr (toISOString w (date_calls s)), s\<lparr>date_calls := Suc (date_calls s)\<rparr>))"

text \<open>The calls made between two states.\<close>

definition new_calls :: "state \<Rightarrow> state \<Rightarrow> call list" where
  "new_calls s s' = drop (length (calls s)) (calls s')"

section \<open>\<^verbatim>\<open>embeddings.js\<close>: the FastEmbedClient\<close>

definition init :: "world \<Rightarrow> unit js" where
  "init w = (\<lambda>s.
     if \<not> initialized s
     then bnd (await Create (FastEmbed_create w))
            (\<lambda>_ s'. (Inr (), s'\<lparr>initialized := True\<rparr>)) s
     else ret () s)"

definition embed :: "world \<Rightarrow> string \<Rightarrow> vector option js" where
  "embed w text_in =
     bnd (init w) (\<lambda>_.
       try_catch
         (bnd (await (ModelEmbed [text_in]) (model_embed w [text_in]))
            (\<lambda>embeddings. ret (index embeddings 0)))
         (\<lambda>error. throw error))"

definition embedBatch :: "world \<Rightarrow> string list \<Rightarrow> vector list js" where
  "embedBatch w texts =
     bnd (init w) (\<lambda>_.
       try_catch
         (await (ModelEmbed texts) (model_embed w texts))
         (\<lambda>error. throw error))"

section \<open>\<^verbatim>\<open>server.js\<close>: tool results\<close>

text \<open>
  The \<^verbatim>\<open>text\<close> of a content item is either \<^verbatim>\<open>JSON.stringify(v)\<close>, kept as the
  value \<open>v\<close> that is serialised, or a template literal's string.
\<close>

datatype js_text = JSON_stringify jsval | Template string

record content_item =
  content_type :: string
  content_text :: js_text

record tool_result =
  content :: "content_item list"
  isError :: bool

definition success_result :: "jsval \<Rightarrow> tool_result" where
  "success_result v =
     \<lparr>content = [\<lparr>content_type = ''text'', content_text = JSON_stringify v\<rparr>], isError = False\<rparr>"

definition error_result :: "string \<Rightarrow> tool_result" where
  "error_result msg =
     \<lparr>content = [\<lparr>content_type = ''text'', content_text = Template msg\<rparr>], isError = True\<rparr>"

text \<open>
  The mapping of a hit that the three search tools apply. Reading
  \<^verbatim>\<open>result.payload.information\<close> throws a TypeError when the payload is
  \<^verbatim>\<open>undefined\<close> or \<^verbatim>\<open>null\<close>; a payload that is no object has none of the
  three properties.
\<close>

definition format_result :: "scored_point \<Rightarrow> string + jsobject" where
  "format_result result =
     (case hit_payload result of
        JUndefined \<Rightarrow> Inl ''Cannot read properties of undefined (reading 'information')''
      | JNull \<Rightarrow> Inl ''Cannot read properties of null (reading 'information')''
      | JObj payload \<Rightarrow>
          Inr [(''information'', get_prop payload ''information''),
               (''metadata'', get_prop payload ''metadata''),
               (''score'', hit_score result),
               (''timestamp'', get_prop payload ''timestamp'')]
      | _ \<Rightarrow>
          Inr [(''information'', JUndefined),
               (''metadata'', JUndefined),
               (''score'', hit_score result),
               (''timestamp'', JUndefined)])"

fun map_results :: "(scored_point \<Rightarrow> string + jsobject) \<Rightarrow> scored_point list \<Rightarrow> string + jsobject list" where
  "map_results f [] = Inr []"
| "map_results f (r # rs) =
     (case f r of
        Inl e \<Rightarrow> Inl e
      | Inr x \<Rightarrow> (case map_results f rs of Inl e \<Rightarrow> Inl e | Inr xs \<Rightarrow> Inr (x # xs)))"

definition formatted :: "scored_point list \<Rightarrow> jsval js" where
  "formatted results =
     (case map_results format_result results of
        Inl e \<Rightarrow> throw e
      | Inr xs \<Rightarrow> ret (JArr (map JObj xs)))"

section \<open>\<^verbatim>\<open>server.js\<close>: the tools\<close>

text \<open>
  The arguments a handler receives. An optional property that the client left out is
  \<open>None\<close>; the handler's destructuring pattern supplies its default. \<open>store_rest\<close>
  stands for every further property of the argument object of \<^verbatim>\<open>qdrant-store\<close>
  (an \<^verbatim>\<open>id\<close>, say): the pattern \<^verbatim>\<open>{ information, metadata = {} }\<close> reads none.
\<close>

record store_args =
  store_information :: string
  store_metadata :: "jsobject option"
  store_rest :: jsobject

record find_args =
  find_query :: string
  find_limit :: "rat option"
  find_filter :: "jsobject option"

record hybrid_args =
  hybrid_query :: string
  hybrid_vector_weight :: "rat option"
  hybrid_keyword_weight :: "rat option"
  hybrid_filters :: "jsobject option"
  hybrid_limit :: "rat option"

record filtered_args =
  filtered_query :: "string option"
  filtered_filters :: jsobject
  filtered_use_vector :: "bool option"
  filtered_limit :: "rat option"

record item =
  item_information :: string
  item_metadata :: "jsobject option"
  item_id :: "string option"

record batch_args =
  batch_items :: "item list"
  batch_collection_name :: "string option"

text \<open>\<^verbatim>\<open>x = d\<close> in a destructuring pattern.\<close>

definition default_to :: "'a \<Rightarrow> 'a option \<Rightarrow> 'a" where
  "default_to d x = (case x of None \<Rightarrow> d | Some v \<Rightarrow> v)"

text \<open>An optional string in a condition: \<^verbatim>\<open>undefined\<close> and \<^verbatim>\<open>''\<close> are falsy.\<close>

definition truthy :: "string option \<Rightarrow> bool" where
  "truthy x = (case x of None \<Rightarrow> False | Some v \<Rightarrow> v \<noteq> [])"

definition no_params :: search_params where
  "no_params =
     \<lparr>sp_vector = None, sp_limit = 0, sp_filter = None, sp_with_payload = None,
      sp_query = None, sp_score_threshold = None, sp_params = None\<rparr>"

subsection \<open>qdrant-store\<close>

definition qdrant_store :: "world \<Rightarrow> store_args \<Rightarrow> tool_result js" where
  "qdrant_store w args =
     (let information = store_information args;
          metadata = default_to [] (store_metadata args)
      in try_catch
           (bnd (embed w information) (\<lambda>embedding.
            bnd (crypto_randomUUID w) (\<lambda>id.
            bnd (new_Date_toISOString w) (\<lambda>timestamp.
            bnd (await
                   (Upsert (COLLECTION_NAME w)
                      [\<lparr>point_id = id, point_vector = embedding,
                        payload_information = information, payload_metadata = metadata,
                        payload_timestamp = timestamp\<rparr>])
                   (qdrant_upsert w (COLLECTION_NAME w)
                      [\<lparr>point_id = id, point_vector = embedding,
                        payload_information = information, payload_metadata = metadata,
                        payload_timestamp = timestamp\<rparr>])) (\<lambda>_.
            ret (success_result (JObj [(''success'', JBool True), (''id'', JStr id)])))))))
           (\<lambda>error. ret (error_result (''Error storing information: '' @ error))))"

subsection \<open>qdrant-find\<close>

definition find_searchParams :: "vector option \<Rightarrow> rat \<Rightarrow> jsobject option \<Rightarrow> search_params" where
  "find_searchParams embedding limit filter_arg =
     (let searchParams = no_params\<lparr>sp_vector := embedding, sp_limit := limit\<rparr>
      in case filter_arg of
           Some f \<Rightarrow> searchParams\<lparr>sp_filter := Some f\<rparr>
         | None \<Rightarrow> searchParams)"

definition qdrant_find :: "world \<Rightarrow> find_args \<Rightarrow> tool_result js" where
  "qdrant_find w args =
     (let query = find_query args;
          limit = default_to 5 (find_limit args);
          filter_arg = find_filter args
      in try_catch
           (bnd (embed w query) (\<lambda>embedding.
            bnd (await (Search (COLLECTION_NAME w) (find_searchParams embedding limit filter_arg))
                   (qdrant_search w (COLLECTION_NAME w) (find_searchParams embedding limit filter_arg)))
              (\<lambda>results.
            bnd (formatted results) (\<lambda>formattedResults.
            ret (success_result formattedResults)))))
           (\<lambda>error. ret (error_result (''Error searching information: '' @ error))))"

subsection \<open>qdrant-hybrid-search\<close>

definition hybrid_searchParams ::
  "vector option \<Rightarrow> string \<Rightarrow> rat \<Rightarrow> rat \<Rightarrow> jsobject option \<Rightarrow> rat \<Rightarrow> search_params" where
  "hybrid_searchParams embedding query vector_weight keyword_weight filters limit =
     (let searchParams =
            no_params\<lparr>sp_vector := embedding, sp_limit := limit * 2, sp_with_payload := Some True\<rparr>;
          searchParams =
            (case filters of
               Some f \<Rightarrow> searchParams\<lparr>sp_filter := Some f\<rparr>
             | None \<Rightarrow> searchParams)
      in if keyword_weight > 0
         then searchParams
                \<lparr>sp_query := Some query, sp_score_threshold := Some 0,
                 sp_params := Some (vector_weight, keyword_weight)\<rparr>
         else searchParams)"

definition qdrant_hybrid_search :: "world \<Rightarrow> hybrid_args \<Rightarrow> tool_result js" where
  "qdrant_hybrid_search w args =
     (let query = hybrid_query args;
          vector_weight = default_to (7 / 10) (hybrid_vector_weight args);
          keyword_weight = default_to (3 / 10) (hybrid_keyword_weight args);
          filters = hybrid_filters args;
          limit = default_to 10 (hybrid_limit args)
      in try_catch
           (bnd (embed w query) (\<lambda>embedding.
            bnd (await
                   (Search (COLLECTION_NAME w)
                      (hybrid_searchParams embedding query vector_weight keyword_weight filters limit))
                   (qdrant_search w (COLLECTION_NAME w)
                      (hybrid_searchParams embedding query vector_weight keyword_weight filters limit)))
              (\<lambda>results.
            bnd (formatted (slice0 results limit)) (\<lambda>formattedResults.
            ret (success_result formattedResults)))))
           (\<lambda>error. ret (error_result (''Error performing hybrid search: '' @ error))))"

subsection \<open>qdrant-filtered-search\<close>

definition qdrant_filtered_search :: "world \<Rightarrow> filtered_args \<Rightarrow> tool_result js" where
  "qdrant_filtered_search w args =
     (let query = filtered_query args;
          filters = filtered_filters args;
          use_vector = default_to True (filtered_use_vector args);
          limit = default_to 10 (filtered_limit args);
          searchParams = no_params\<lparr>sp_limit := limit, sp_filter := Some filters, sp_with_payload := Some True\<rparr>
      in try_catch
           (bnd (if use_vector \<and> truthy query
                 then bnd (embed w (default_to [] query)) (\<lambda>embedding. ret (searchParams\<lparr>sp_vector := embedding\<rparr>))
                 else ret searchParams) (\<lambda>searchParams.
            bnd (await (Search (COLLECTION_NAME w) searchParams)
                   (qdrant_search w (COLLECTION_NAME w) searchParams)) (\<lambda>results.
            bnd (formatted results) (\<lambda>formattedResults.
            ret (success_result formattedResults)))))
           (\<lambda>error. ret (error_result (''Error performing filtered search: '' @ error))))"

subsection \<open>qdrant-collection-stats and qdrant-list-collections\<close>

definition qdrant_collection_stats :: "world \<Rightarrow> string \<Rightarrow> tool_result js" where
  "qdrant_collection_stats w collection_name =
     try_catch
       (bnd (await (GetCollection collection_name) (qdrant_getCollection w collection_name))
          (\<lambda>stats. ret (success_result stats)))
       (\<lambda>error. ret (error_result (''Error getting collection stats: '' @ error)))"

definition qdrant_list_collections :: "world \<Rightarrow> tool_result js" where
  "qdrant_list_collections w =
     try_catch
       (bnd (await GetCollections (qdrant_getCollections w))
          (\<lambda>collections. ret (success_result collections)))
       (\<lambda>error. ret (error_result (''Error listing collections: '' @ error)))"

subsection \<open>qdrant-batch-store\<close>

text \<open>
  \<^verbatim>\<open>items.map((item, index) => ...)\<close>: the items in order, each drawing a UUID only
  when its own id is falsy, then a timestamp.
\<close>

fun map_points :: "world \<Rightarrow> vector list \<Rightarrow> nat \<Rightarrow> item list \<Rightarrow> state \<Rightarrow> point list \<times> state" where
  "map_points w embeddings i [] s = ([], s)"
| "map_points w embeddings i (it # items) s =
     (let (id, s1) =
            (if truthy (item_id it) then (default_to [] (item_id it), s)
             else (randomUUID w (uuid_calls s), s\<lparr>uuid_calls := Suc (uuid_calls s)\<rparr>));
          timestamp = toISOString w (date_calls s1);
          s2 = s1\<lparr>date_calls := Suc (date_calls s1)\<rparr>;
          p = \<lparr>point_id = id, point_vector = index embeddings i,
               payload_information = item_information it,
               payload_metadata = default_to [] (item_metadata it),
               payload_timestamp = timestamp\<rparr>;
          (ps, s3) = map_points w embeddings (Suc i) items s2
      in (p # ps, s3))"

definition qdrant_batch_store :: "world \<Rightarrow> batch_args \<Rightarrow> tool_result js" where
  "qdrant_batch_store w args =
     (let items = batch_items args;
          collection_name = default_to (COLLECTION_NAME w) (batch_collection_name args)
      in try_catch
           (bnd (embedBatch w (map item_information items)) (\<lambda>embeddings.
            bnd (\<lambda>s. case map_points w embeddings 0 items s of (ps, s') \<Rightarrow> (Inr ps, s')) (\<lambda>points.
            bnd (await (Upsert collection_name points) (qdrant_upsert w collection_name points)) (\<lambda>_.
            ret (success_result
                   (JObj [(''success'', JBool True),
                          (''message'', JStr (''Successfully stored '' @ digits (length points) @ '' items'')),
                          (''ids'', JArr (map (\<lambda>p. JStr (point_id p)) points))]))))))
           (\<lambda>error. ret (error_result (''Error batch storing information: '' @ error))))"

subsection \<open>A tool invocation\<close>

text \<open>The seven tools that \<^verbatim>\<open>createMcpServer\<close> registers, each with its validated arguments.\<close>

datatype tool_request =
    Store store_args
  | Find find_args
  | HybridSearch hybrid_args
  | FilteredSearch filtered_args
  | CollectionStats string
  | ListCollections
  | BatchStore batch_args

fun invoke :: "world \<Rightarrow> tool_request \<Rightarrow> tool_result js" where
  "invoke w (Store a) = qdrant_store w a"
| "invoke w (Find a) = qdrant_find w a"
| "invoke w (HybridSearch a) = qdrant_hybrid_search w a"
| "invoke w (FilteredSearch a) = qdrant_filtered_search w a"
| "invoke w (CollectionStats c) = qdrant_collection_stats w c"
| "invoke w ListCollections = qdrant_list_collections w"
| "invoke w (BatchStore a) = qdrant_batch_store w a"

fun error_prefix :: "tool_request \<Rightarrow> string" where
  "error_prefix (Store a) = ''Error storing information: ''"
| "error_prefix (Find a) = ''Error searching information: ''"
| "error_prefix (HybridSearch a) = ''Error performing hybrid search: ''"
| "error_prefix (FilteredSearch a) = ''Error performing filtered search: ''"
| "error_prefix (CollectionStats c) = ''Error getting collection stats: ''"
| "error_prefix ListCollections = ''Error listing collections: ''"
| "error_prefix (BatchStore a) = ''Error batch storing information: ''"

section \<open>\<^verbatim>\<open>server.js\<close>: sessions\<close>

text \<open>
  \<^verbatim>\<open>const transports = {}\<close> is a plain object used as the session table: its own
  properties in insertion order. Reading \<^verbatim>\<open>transports[key]\<close> finds an own property,
  or else what every plain object inherits from \<^verbatim>\<open>Object.prototype\<close>, or else
  \<^verbatim>\<open>undefined\<close>.
\<close>

datatype transport = SSEServerTransport string

datatype 'a property = Undefined | Own 'a | Inherited string

definition Object_prototype :: "string list" where
  "Object_prototype =
     [''constructor'', ''__defineGetter__'', ''__defineSetter__'', ''hasOwnProperty'',
      ''__lookupGetter__'', ''__lookupSetter__'', ''isPrototypeOf'', ''propertyIsEnumerable'',
      ''toString'', ''valueOf'', ''__proto__'', ''toLocaleString'']"

definition read_prop :: "(string \<times> 'a) list \<Rightarrow> string \<Rightarrow> 'a property" where
  "read_prop obj k =
     (case map_of obj k of
        Some v \<Rightarrow> Own v
      | None \<Rightarrow> if k \<in> set Object_prototype then Inherited k else Undefined)"

text \<open>\<^verbatim>\<open>obj[k] = v\<close> for a key that is not an inherited name, and \<^verbatim>\<open>delete obj[k]\<close>.\<close>

definition set_prop :: "string \<Rightarrow> 'a \<Rightarrow> (string \<times> 'a) list \<Rightarrow> (string \<times> 'a) list" where
  "set_prop k v obj =
     (if k \<in> fst ` set obj then map (\<lambda>(k', v'). if k' = k then (k', v) else (k', v')) obj
      else obj @ [(k, v)])"

definition delete_prop :: "string \<Rightarrow> (string \<times> 'a) list \<Rightarrow> (string \<times> 'a) list" where
  "delete_prop k obj = filter (\<lambda>(k', v'). k' \<noteq> k) obj"

datatype log_line = Log string | Error string

datatype transport_call =
    Connect transport
  | Start transport
  | HandlePostMessage transport jsval
  | Close transport

text \<open>
  The SDK's side of a session: the id of the \<open>n\<close>-th transport it creates, and how its
  calls end, each of them settling. \<open>Threw m sent\<close> is an error with message \<open>m\<close>,
  thrown when \<^verbatim>\<open>res.headersSent\<close> was \<open>sent\<close>.
\<close>

datatype outcome = Done | Threw string bool

record sdk =
  sessionId_of :: "nat \<Rightarrow> string"
  server_connect :: "transport \<Rightarrow> outcome"
  transport_start :: "transport \<Rightarrow> outcome"
  handlePostMessage :: "transport \<Rightarrow> jsval \<Rightarrow> outcome"
  transport_close :: "transport \<Rightarrow> string + unit"

record server =
  transports :: "(string \<times> transport) list"
  created :: nat
  console :: "log_line list"
  transport_calls :: "transport_call list"
  exit_code :: "int option"

text \<open>
  What the HTTP handler itself answers: \<open>Send status body\<close>, or nothing, the response
  being the transport's to write.
\<close>

datatype http_response = Send nat string | ByTransport

definition console_log :: "string \<Rightarrow> server \<Rightarrow> server" where
  "console_log m s = s\<lparr>console := console s @ [Log m]\<rparr>"

definition console_error :: "string \<Rightarrow> server \<Rightarrow> server" where
  "console_error m s = s\<lparr>console := console s @ [Error m]\<rparr>"

definition called :: "transport_call \<Rightarrow> server \<Rightarrow> server" where
  "called c s = s\<lparr>transport_calls := transport_calls s @ [c]\<rparr>"

subsection \<open>GET /mcp\<close>

definition onclose :: "string \<Rightarrow> server \<Rightarrow> server" where
  "onclose sessionId s =
     (let s1 = console_log (''SSE transport closed for session '' @ sessionId) s
      in s1\<lparr>transports := delete_prop sessionId (transports s1)\<rparr>)"

definition establish_failed :: "string \<Rightarrow> bool \<Rightarrow> server \<Rightarrow> http_response \<times> server" where
  "establish_failed m sent s =
     (let s1 = console_error (''Error establishing SSE stream: '' @ m) s
      in (if \<not> sent then Send 500 ''Error establishing SSE stream'' else ByTransport, s1))"

definition get_mcp :: "sdk \<Rightarrow> server \<Rightarrow> http_response \<times> server" where
  "get_mcp k s =
     (let s1 = console_log ''Received GET request to /mcp (establishing SSE stream)'' s;
          sessionId = sessionId_of k (created s1);
          t = SSEServerTransport sessionId;
          s2 = s1\<lparr>created := Suc (created s1), transports := set_prop sessionId t (transports s1)\<rparr>;
          s3 = called (Connect t) s2
      in case server_connect k t of
           Threw m sent \<Rightarrow> establish_failed m sent s3
         | Done \<Rightarrow>
             (let s4 = called (Start t) s3
              in case transport_start k t of
                   Threw m sent \<Rightarrow> establish_failed m sent s4
                 | Done \<Rightarrow>
                     (ByTransport,
                      console_log (''Established SSE stream with session ID: '' @ sessionId) s4)))"

subsection \<open>POST /messages\<close>

record post_request =
  query_sessionId :: "string option"
  body :: jsval

definition handling_failed :: "string \<Rightarrow> bool \<Rightarrow> server \<Rightarrow> http_response \<times> server" where
  "handling_failed m sent s =
     (let s1 = console_error (''Error handling request: '' @ m) s
      in (if \<not> sent then Send 500 ''Error handling request'' else ByTransport, s1))"

definition post_messages :: "sdk \<Rightarrow> post_request \<Rightarrow> server \<Rightarrow> http_response \<times> server" where
  "post_messages k req s =
     (let s1 = console_log ''Received POST request to /messages'' s;
          sessionId = query_sessionId req
      in if \<not> truthy sessionId
         then (Send 400 ''Missing sessionId parameter'',
               console_error ''No session ID provided in request URL'' s1)
         else
           (case read_prop (transports s1) (default_to [] sessionId) of
              Undefined \<Rightarrow>
                (Send 404 ''Session not found'',
                 console_error (''No active transport found for session ID: '' @ default_to [] sessionId) s1)
            | Own t \<Rightarrow>
                (let s2 = called (HandlePostMessage t (body req)) s1
                 in case handlePostMessage k t (body req) of
                      Done \<Rightarrow> (ByTransport, s2)
                    | Threw m sent \<Rightarrow> handling_failed m sent s2)
            | Inherited name \<Rightarrow>
                handling_failed ''transport.handlePostMessage is not a function'' False s1))"

subsection \<open>SIGINT\<close>

text \<open>
  \<^verbatim>\<open>for (const sessionId in transports)\<close> visits the own keys; the body deletes none
  but the one it is visiting.
\<close>

fun close_each :: "sdk \<Rightarrow> string list \<Rightarrow> server \<Rightarrow> server" where
  "close_each k [] s = s"
| "close_each k (sessionId # rest) s =
     (let s1 = console_log (''Closing transport for session '' @ sessionId) s
      in case read_prop (transports s1) sessionId of
           Own t \<Rightarrow>
             (let s2 = called (Close t) s1
              in case transport_close k t of
                   Inr _ \<Rightarrow> close_each k rest (s2\<lparr>transports := delete_prop sessionId (transports s2)\<rparr>)
                 | Inl m \<Rightarrow>
                     close_each k rest
                       (console_error (''Error closing transport for session '' @ sessionId @ '': '' @ m) s2))
         | Undefined \<Rightarrow>
             close_each k rest
               (console_error
                  (''Error closing transport for session '' @ sessionId @
                   '': Cannot read properties of undefined (reading close)'') s1)
         | Inherited name \<Rightarrow>
             close_each k rest
               (console_error
                  (''Error closing transport for session '' @ sessionId @
                   '': transports[sessionId].close is not a function'') s1))"

definition shutdown :: "sdk \<Rightarrow> server \<Rightarrow> server" where
  "shutdown k s =
     (let s1 = console_log ''Shutting down server...'' s;
          s2 = close_each k (map fst (transports s1)) s1;
          s3 = console_log ''Server shutdown complete'' s2
      in s3\<lparr>exit_code := Some 0\<rparr>)"

section \<open>What the claims speak of\<close>

text \<open>The three tools that return retrieved items.\<close>

fun search_tool :: "tool_request \<Rightarrow> bool" where
  "search_tool (Find a) = True"
| "search_tool (HybridSearch a) = True"
| "search_tool (FilteredSearch a) = True"
| "search_tool (Store a) = False"
| "search_tool (CollectionStats c) = False"
| "search_tool ListCollections = False"
| "search_tool (BatchStore a) = False"


text \<open>
  The hits of the store's answer that a search tool formats: hybrid search keeps
  \<^verbatim>\<open>results.slice(0, limit)\<close>, find and filtered search keep them all.
\<close>

fun retained :: "tool_request \<Rightarrow> scored_point list \<Rightarrow> scored_point list" where
  "retained (HybridSearch a) results = slice0 results (default_to 10 (hybrid_limit a))"
| "retained req results = results"


section \<open>Concrete worlds\<close>

text \<open>
  A store of three points that answers a whole-numbered limit of 1 or more with its best
  hits and rejects every other limit, as a store whose limit is a count does; an embedder
  that always answers; a store whose search times out; a store that serves at most three
  hits a request; and a store that holds one point whose payload has only the
  information. They are used to run the tools on inputs.
\<close>

definition demo_hits :: "scored_point list" where
  "demo_hits =
     [\<lparr>hit_score = JNum (9 / 10),
       hit_payload = JObj [(''information'', JStr ''The sky is blue''),
                           (''metadata'', JObj [(''topic'', JStr ''weather'')]),
                           (''timestamp'', JStr ''t0'')]\<rparr>,
      \<lparr>hit_score = JNum (1 / 2),
       hit_payload = JObj [(''information'', JStr ''Grass is green''),
                           (''metadata'', JObj []),
                           (''timestamp'', JStr ''t1'')]\<rparr>,
      \<lparr>hit_score = JNum (1 / 10),
       hit_payload = JObj [(''information'', JStr ''Two plus two is four''),
                           (''metadata'', JObj []),
                           (''timestamp'', JStr ''t2'')]\<rparr>]"

definition demo_search :: "string \<Rightarrow> search_params \<Rightarrow> string + scored_point list" where
  "demo_search c p =
     (if of_int \<lfloor>sp_limit p\<rfloor> \<noteq> sp_limit p then Inl ''limit must be a whole number''
      else if sp_limit p < 1 then Inl ''limit must be at least 1''
      else Inr (take (nat \<lfloor>sp_limit p\<rfloor>) demo_hits))"

definition demo_world :: world where
  "demo_world =
     \<lparr>COLLECTION_NAME = ''agent-ren3'',
      FastEmbed_create = Inr (),
      model_embed = (\<lambda>texts. Inr (map (\<lambda>t. [of_nat (length t)]) texts)),
      qdrant_search = demo_search,
      qdrant_upsert = (\<lambda>c ps. Inr ()),
      qdrant_getCollection = (\<lambda>c. Inr JNull),
      qdrant_getCollections = Inr (JArr []),
      randomUUID = (\<lambda>n. ''uuid-'' @ digits n),
      toISOString = (\<lambda>n. ''day-'' @ digits n)\<rparr>"

definition timeout_world :: world where
  "timeout_world = demo_world\<lparr>qdrant_search := (\<lambda>c p. Inl ''timeout'')\<rparr>"


definition sparse_world :: world where
  "sparse_world =
     demo_world\<lparr>qdrant_search :=
       (\<lambda>c p. Inr [\<lparr>hit_score = JNum (1 / 2),
                        hit_payload = JObj [(''information'', JStr ''x'')]\<rparr>])\<rparr>"

definition fresh_state :: state where
  "fresh_state = \<lparr>initialized = False, uuid_calls = 0, date_calls = 0, calls = []\<rparr>"

definition demo_find :: find_args where
  "demo_find = \<lparr>find_query = ''weather color'', find_limit = Some 1, find_filter = None\<rparr>"

definition demo_store :: store_args where
  "demo_store =
     \<lparr>store_information = ''The sky is blue'',
      store_metadata = Some [(''topic'', JStr ''weather'')],
      store_rest = [(''id'', JStr ''chosen-by-client'')]\<rparr>"

definition demo_sdk :: sdk where
  "demo_sdk =
     \<lparr>sessionId_of = (\<lambda>n. ''session-'' @ digits n),
      server_connect = (\<lambda>t. Done),
      transport_start = (\<lambda>t. Done),
      handlePostMessage = (\<lambda>t b. Done),
      transport_close =
        (\<lambda>t. if t = SSEServerTransport ''session-1'' then Inl ''socket hang up'' else Inr ())\<rparr>"

definition no_sessions :: server where
  "no_sessions =
     \<lparr>transports = [], created = 0, console = [], transport_calls = [], exit_code = None\<rparr>"

definition demo_hybrid :: hybrid_args where
  "demo_hybrid =
     \<lparr>hybrid_query = ''weather color'', hybrid_vector_weight = Some (7 / 10),
      hybrid_keyword_weight = Some 0, hybrid_filters = None, hybrid_limit = Some 1\<rparr>"






definition demo_hybrid_params :: search_params where
  "demo_hybrid_params =
     \<lparr>sp_vector = Some [13], sp_limit = 2, sp_filter = None, sp_with_payload = Some True,
      sp_query = None, sp_score_threshold = None, sp_params = None\<rparr>"

definition demo_hybrid_weighted :: hybrid_args where
  "demo_hybrid_weighted =
     \<lparr>hybrid_query = ''weather color'', hybrid_vector_weight = None,
      hybrid_keyword_weight = None, hybrid_filters = None, hybrid_limit = Some 1\<rparr>"

definition first_hit :: jsval where
  "first_hit =
     JArr [JObj [(''information'', JStr ''The sky is blue''),
                 (''metadata'', JObj [(''topic'', JStr ''weather'')]),
                 (''score'', JNum (9 / 10)),
                 (''timestamp'', JStr ''t0'')]]"

definition demo_items :: "item list" where
  "demo_items =
     [\<lparr>item_information = ''a'', item_metadata = None, item_id = None\<rparr>,
      \<lparr>item_information = ''a'', item_metadata = None, item_id = Some ''''\<rparr>,
      \<lparr>item_information = ''a'', item_metadata = Some [(''k'', JNull)], item_id = Some ''mine''\<rparr>]"

definition demo_batch :: batch_args where
  "demo_batch = \<lparr>batch_items = demo_items, batch_collection_name = None\<rparr>"

definition demo_points :: "point list" where
  "demo_points =
     [\<lparr>point_id = ''uuid-0'', point_vector = Some [1], payload_information = ''a'',
       payload_metadata = [], payload_timestamp = ''day-0''\<rparr>,
      \<lparr>point_id = ''uuid-1'', point_vector = Some [1], payload_information = ''a'',
       payload_metadata = [], payload_timestamp = ''day-1''\<rparr>,
      \<lparr>point_id = ''mine'', point_vector = Some [1], payload_information = ''a'',
       payload_metadata = [(''k'', JNull)], payload_timestamp = ''day-2''\<rparr>]"

definition three_sessions :: server where
  "three_sessions =
     no_sessions\<lparr>transports :=
       [(''session-0'', SSEServerTransport ''session-0''),
        (''session-1'', SSEServerTransport ''session-1''),
        (''session-2'', SSEServerTransport ''session-2'')]\<rparr>"

lemmas demo_defs = digits.simps demo_world_def timeout_world_def fresh_state_def demo_find_def
  demo_search_def demo_hits_def demo_store_def

section \<open>How the tools run\<close>

lemmas js_defs = ret_def throw_def bnd_def try_catch_def await_def crypto_randomUUID_def
  new_Date_toISOString_def

lemma embed_unfold:
  "embed w t s =
     (if initialized s
      then (map_sum id (\<lambda>e. index e 0) (model_embed w [t]), s\<lparr>calls := calls s @ [ModelEmbed [t]]\<rparr>)
      else (case FastEmbed_create w of
              Inl m \<Rightarrow> (Inl m, s\<lparr>calls := calls s @ [Create]\<rparr>)
            | Inr _ \<Rightarrow> (map_sum id (\<lambda>e. index e 0) (model_embed w [t]),
                        s\<lparr>calls := calls s @ [Create, ModelEmbed [t]], initialized := True\<rparr>)))"
  by (auto simp: embed_def init_def js_defs split: sum.splits)

lemma embedBatch_unfold:
  "embedBatch w ts s =
     (if initialized s
      then (model_embed w ts, s\<lparr>calls := calls s @ [ModelEmbed ts]\<rparr>)
      else (case FastEmbed_create w of
              Inl m \<Rightarrow> (Inl m, s\<lparr>calls := calls s @ [Create]\<rparr>)
            | Inr _ \<Rightarrow> (model_embed w ts,
                        s\<lparr>calls := calls s @ [Create, ModelEmbed ts], initialized := True\<rparr>)))"
  by (auto simp: embedBatch_def init_def js_defs split: sum.splits)

lemma formatted_unfold:
  "formatted rs s =
     (case map_results format_result rs of
        Inl e \<Rightarrow> (Inl e, s)
      | Inr xs \<Rightarrow> (Inr (JArr (map JObj xs)), s))"
  by (simp add: formatted_def ret_def throw_def split: sum.splits)

lemma store_unfold:
  "qdrant_store w a s =
     (case embed w (store_information a) s of
        (Inl e, s1) \<Rightarrow> (Inr (error_result (''Error storing information: '' @ e)), s1)
      | (Inr embedding, s1) \<Rightarrow>
          (let p = \<lparr>point_id = randomUUID w (uuid_calls s1), point_vector = embedding,
                    payload_information = store_information a,
                    payload_metadata = default_to [] (store_metadata a),
                    payload_timestamp = toISOString w (date_calls s1)\<rparr>;
               s2 = s1\<lparr>uuid_calls := Suc (uuid_calls s1), date_calls := Suc (date_calls s1),
                       calls := calls s1 @ [Upsert (COLLECTION_NAME w) [p]]\<rparr>
           in case qdrant_upsert w (COLLECTION_NAME w) [p] of
                Inl e \<Rightarrow> (Inr (error_result (''Error storing information: '' @ e)), s2)
              | Inr _ \<Rightarrow>
                  (Inr (success_result
                     (JObj [(''success'', JBool True), (''id'', JStr (randomUUID w (uuid_calls s1)))])), s2)))"
  unfolding qdrant_store_def Let_def js_defs
  by (simp split: sum.splits prod.splits)

lemma map_points_Cons:
  "map_points w es i (it # items) s =
     (let s2 = s\<lparr>uuid_calls := (if truthy (item_id it) then uuid_calls s else Suc (uuid_calls s)),
                 date_calls := Suc (date_calls s)\<rparr>;
          p = \<lparr>point_id = (if truthy (item_id it) then default_to [] (item_id it)
                            else randomUUID w (uuid_calls s)),
               point_vector = index es i,
               payload_information = item_information it,
               payload_metadata = default_to [] (item_metadata it),
               payload_timestamp = toISOString w (date_calls s)\<rparr>
      in (p # fst (map_points w es (Suc i) items s2), snd (map_points w es (Suc i) items s2)))"
  by (simp add: Let_def split: prod.splits)

lemma map_points_calls:
  "calls (snd (map_points w es i items s)) = calls s"
  by (induction items arbitrary: i s) (simp_all add: map_points_Cons Let_def del: map_points.simps(2))

lemma map_points_initialized:
  "initialized (snd (map_points w es i items s)) = initialized s"
  by (induction items arbitrary: i s) (simp_all add: map_points_Cons Let_def del: map_points.simps(2))

lemma map_points_length:
  "length (fst (map_points w es i items s)) = length items"
  by (induction items arbitrary: i s) (simp_all add: map_points_Cons Let_def del: map_points.simps(2))

lemma map_points_nth:
  "j < length items \<Longrightarrow>
   payload_information (fst (map_points w es i items s) ! j) = item_information (items ! j)
   \<and> payload_metadata (fst (map_points w es i items s) ! j) = default_to [] (item_metadata (items ! j))
   \<and> point_vector (fst (map_points w es i items s) ! j) = index es (i + j)
   \<and> point_id (fst (map_points w es i items s) ! j) =
       (if truthy (item_id (items ! j)) then default_to [] (item_id (items ! j))
        else randomUUID w (uuid_calls s + length (filter (\<lambda>it. \<not> truthy (item_id it)) (take j items))))"
proof (induction items arbitrary: i j s)
  case Nil
  then show ?case by simp
next
  case (Cons it items)
  show ?case
  proof (cases j)
    case 0
    then show ?thesis by (simp add: map_points_Cons Let_def del: map_points.simps(2))
  next
    case (Suc j')
    with Cons.prems have "j' < length items" by simp
    from Cons.IH[OF this] Suc show ?thesis
      by (simp add: map_points_Cons Let_def del: map_points.simps(2))
  qed
qed

lemma batch_unfold:
  "qdrant_batch_store w a s =
     (case embedBatch w (map item_information (batch_items a)) s of
        (Inl e, s1) \<Rightarrow> (Inr (error_result (''Error batch storing information: '' @ e)), s1)
      | (Inr es, s1) \<Rightarrow>
          (let ps = fst (map_points w es 0 (batch_items a) s1);
               s2 = snd (map_points w es 0 (batch_items a) s1);
               c = default_to (COLLECTION_NAME w) (batch_collection_name a);
               s3 = s2\<lparr>calls := calls s2 @ [Upsert c ps]\<rparr>
           in case qdrant_upsert w c ps of
                Inl e \<Rightarrow> (Inr (error_result (''Error batch storing information: '' @ e)), s3)
              | Inr _ \<Rightarrow>
                  (Inr (success_result
                     (JObj [(''success'', JBool True),
                            (''message'', JStr (''Successfully stored '' @ digits (length ps) @ '' items'')),
                            (''ids'', JArr (map (\<lambda>p. JStr (point_id p)) ps))])), s3)))"
  unfolding qdrant_batch_store_def Let_def js_defs
  by (simp add: case_prod_beta split: sum.splits)

subsection \<open>Every handler catches what its collaborators throw\<close>

lemma error_result_fields:
  "isError (error_result m)"
  "content (error_result m) = [\<lparr>content_type = ''text'', content_text = Template m\<rparr>]"
  by (simp_all add: error_result_def)

lemma store_catches:
  assumes "qdrant_store w a s = (out, s')"
  shows "\<exists>r. out = Inr r \<and>
    (\<forall>c \<in> set (new_calls s s'). \<forall>m. failure_of w c = Some m \<longrightarrow>
       isError r
       \<and> content r = [\<lparr>content_type = ''text'', content_text = Template (''Error storing information: '' @ m)\<rparr>])"
proof -
  from assms have "\<exists>r. out = Inr r \<and>
    (\<forall>c \<in> set (new_calls s s'). \<forall>m. failure_of w c = Some m \<longrightarrow>
       r = error_result (''Error storing information: '' @ m))"
    by (auto simp: store_unfold Let_def embed_unfold new_calls_def message_of_def
      split: sum.splits if_splits)
  then show ?thesis
    by (auto simp: error_result_fields)
qed

lemma find_catches:
  assumes "qdrant_find w a s = (out, s')"
  shows "\<exists>r. out = Inr r \<and>
    (\<forall>c \<in> set (new_calls s s'). \<forall>m. failure_of w c = Some m \<longrightarrow>
       isError r
       \<and> content r = [\<lparr>content_type = ''text'', content_text = Template (''Error searching information: '' @ m)\<rparr>])"
proof -
  from assms have "\<exists>r. out = Inr r \<and>
    (\<forall>c \<in> set (new_calls s s'). \<forall>m. failure_of w c = Some m \<longrightarrow>
       r = error_result (''Error searching information: '' @ m))"
    by (auto simp: qdrant_find_def Let_def js_defs embed_unfold formatted_unfold new_calls_def
      message_of_def split: sum.splits if_splits)
  then show ?thesis
    by (auto simp: error_result_fields)
qed

lemma hybrid_catches:
  assumes "qdrant_hybrid_search w a s = (out, s')"
  shows "\<exists>r. out = Inr r \<and>
    (\<forall>c \<in> set (new_calls s s'). \<forall>m. failure_of w c = Some m \<longrightarrow>
       isError r
       \<and> content r = [\<lparr>content_type = ''text'', content_text = Template (''Error performing hybrid search: '' @ m)\<rparr>])"
proof -
  from assms have "\<exists>r. out = Inr r \<and>
    (\<forall>c \<in> set (new_calls s s'). \<forall>m. failure_of w c = Some m \<longrightarrow>
       r = error_result (''Error performing hybrid search: '' @ m))"
    by (auto simp: qdrant_hybrid_search_def Let_def js_defs embed_unfold formatted_unfold new_calls_def
      message_of_def split: sum.splits if_splits)
  then show ?thesis
    by (auto simp: error_result_fields)
qed

lemma filtered_catches:
  assumes "qdrant_filtered_search w a s = (out, s')"
  shows "\<exists>r. out = Inr r \<and>
    (\<forall>c \<in> set (new_calls s s'). \<forall>m. failure_of w c = Some m \<longrightarrow>
       isError r
       \<and> content r = [\<lparr>content_type = ''text'', content_text = Template (''Error performing filtered search: '' @ m)\<rparr>])"
proof -
  from assms have "\<exists>r. out = Inr r \<and>
    (\<forall>c \<in> set (new_calls s s'). \<forall>m. failure_of w c = Some m \<longrightarrow>
       r = error_result (''Error performing filtered search: '' @ m))"
    by (auto simp: qdrant_filtered_search_def Let_def js_defs embed_unfold formatted_unfold new_calls_def
      message_of_def split: sum.splits if_splits)
  then show ?thesis
    by (auto simp: error_result_fields)
qed

lemma batch_catches:
  assumes "qdrant_batch_store w a s = (out, s')"
  shows "\<exists>r. out = Inr r \<and>
    (\<forall>c \<in> set (new_calls s s'). \<forall>m. failure_of w c = Some m \<longrightarrow>
       isError r
       \<and> content r = [\<lparr>content_type = ''text'', content_text = Template (''Error batch storing information: '' @ m)\<rparr>])"
proof -
  from assms have "\<exists>r. out = Inr r \<and>
    (\<forall>c \<in> set (new_calls s s'). \<forall>m. failure_of w c = Some m \<longrightarrow>
       r = error_result (''Error batch storing information: '' @ m))"
    by (auto simp: batch_unfold Let_def embedBatch_unfold new_calls_def message_of_def map_points_calls
      split: sum.splits if_splits)
  then show ?thesis
    by (auto simp: error_result_fields)
qed

lemma stats_catches:
  assumes "qdrant_collection_stats w a s = (out, s')"
  shows "\<exists>r. out = Inr r \<and>
    (\<forall>c \<in> set (new_calls s s'). \<forall>m. failure_of w c = Some m \<longrightarrow>
       isError r
       \<and> content r = [\<lparr>content_type = ''text'', content_text = Template (''Error getting collection stats: '' @ m)\<rparr>])"
proof -
  from assms have "\<exists>r. out = Inr r \<and>
    (\<forall>c \<in> set (new_calls s s'). \<forall>m. failure_of w c = Some m \<longrightarrow>
       r = error_result (''Error getting collection stats: '' @ m))"
    by (auto simp: qdrant_collection_stats_def Let_def js_defs new_calls_def message_of_def
      split: sum.splits if_splits)
  then show ?thesis
    by (auto simp: error_result_fields)
qed

lemma list_catches:
  assumes "qdrant_list_collections w s = (out, s')"
  shows "\<exists>r. out = Inr r \<and>
    (\<forall>c \<in> set (new_calls s s'). \<forall>m. failure_of w c = Some m \<longrightarrow>
       isError r
       \<and> content r = [\<lparr>content_type = ''text'', content_text = Template (''Error listing collections: '' @ m)\<rparr>])"
proof -
  from assms have "\<exists>r. out = Inr r \<and>
    (\<forall>c \<in> set (new_calls s s'). \<forall>m. failure_of w c = Some m \<longrightarrow>
       r = error_result (''Error listing collections: '' @ m))"
    by (auto simp: qdrant_list_collections_def Let_def js_defs new_calls_def message_of_def
      split: sum.splits if_splits)
  then show ?thesis
    by (auto simp: error_result_fields)
qed

subsection \<open>Formatting and truncation\<close>

lemma format_result_props:
  assumes "format_result r = Inr x"
  shows "map fst x = [''information'', ''metadata'', ''score'', ''timestamp'']"
    and "get_prop x ''score'' = hit_score r"
proof -
  from assms obtain information metadata timestamp where
    x: "x = [(''information'', information),
             (''metadata'', metadata),
             (''score'', hit_score r),
             (''timestamp'', timestamp)]"
    by (auto simp: format_result_def split: jsval.splits)
  show "map fst x = [''information'', ''metadata'', ''score'', ''timestamp'']"
    unfolding x by simp
  show "get_prop x ''score'' = hit_score r"
    unfolding x get_prop_def by simp
qed

lemma format_result_shape:
  assumes "format_result r = Inr x"
  shows "\<exists>information metadata timestamp.
           x = [(''information'', information), (''metadata'', metadata),
                (''score'', hit_score r), (''timestamp'', timestamp)]"
  using assms by (auto simp: format_result_def split: jsval.splits)

lemma map_results_Inr:
  "map_results f rs = Inr xs \<Longrightarrow> list_all2 (\<lambda>r x. f r = Inr x) rs xs"
proof (induction rs arbitrary: xs)
  case Nil
  then show ?case by simp
next
  case (Cons r rs)
  from Cons.prems obtain y ys where "f r = Inr y" "map_results f rs = Inr ys" "xs = y # ys"
    by (auto split: sum.splits)
  with Cons.IH show ?case by simp
qed

lemma map_results_props:
  assumes "map_results format_result rs = Inr xs"
  shows "length xs = length rs
     \<and> map (\<lambda>x. get_prop x ''score'') xs = map hit_score rs
     \<and> (\<forall>x \<in> set xs. map fst x = [''information'', ''metadata'', ''score'', ''timestamp''])"
proof -
  from map_results_Inr[OF assms]
  have all2: "list_all2 (\<lambda>r x. format_result r = Inr x) rs xs" .
  then have len: "length xs = length rs"
    by (simp add: list_all2_lengthD)
  from all2 have nth: "format_result (rs ! i) = Inr (xs ! i)" if "i < length rs" for i
    using that list_all2_nthD[of "\<lambda>r x. format_result r = Inr x" rs xs i] by simp
  have scores: "map (\<lambda>x. get_prop x ''score'') xs = map hit_score rs"
  proof (rule nth_equalityI)
    show "length (map (\<lambda>x. get_prop x ''score'') xs) = length (map hit_score rs)"
      using len by simp
  next
    fix i
    assume "i < length (map (\<lambda>x. get_prop x ''score'') xs)"
    then have i: "i < length rs" using len by simp
    from format_result_props(2)[OF nth[OF i]] i len
    show "map (\<lambda>x. get_prop x ''score'') xs ! i = map hit_score rs ! i"
      by simp
  qed
  have keys: "map fst x = [''information'', ''metadata'', ''score'', ''timestamp'']"
    if "x \<in> set xs" for x
  proof -
    from that obtain i where "i < length xs" "x = xs ! i"
      by (auto simp: in_set_conv_nth)
    with len nth[of i] show ?thesis
      by (auto dest: format_result_props(1))
  qed
  from len scores keys show ?thesis by blast
qed

lemma slice0_take: "0 \<le> e \<Longrightarrow> slice0 xs e = take (nat \<lfloor>e\<rfloor>) xs"
  by (simp add: slice0_def to_integer_def)




lemma slice0_is_take: "\<exists>n. slice0 xs e = take n xs"
  by (auto simp: slice0_def)

subsection \<open>The search tools, step by step\<close>

lemma hybrid_unfold:
  "qdrant_hybrid_search w a s =
     (case embed w (hybrid_query a) s of
        (Inl e, s1) \<Rightarrow> (Inr (error_result (''Error performing hybrid search: '' @ e)), s1)
      | (Inr embedding, s1) \<Rightarrow>
          (let p = hybrid_searchParams embedding (hybrid_query a)
                     (default_to (7 / 10) (hybrid_vector_weight a))
                     (default_to (3 / 10) (hybrid_keyword_weight a))
                     (hybrid_filters a) (default_to 10 (hybrid_limit a));
               s2 = s1\<lparr>calls := calls s1 @ [Search (COLLECTION_NAME w) p]\<rparr>
           in case qdrant_search w (COLLECTION_NAME w) p of
                Inl e \<Rightarrow> (Inr (error_result (''Error performing hybrid search: '' @ e)), s2)
              | Inr results \<Rightarrow>
                  (case map_results format_result (slice0 results (default_to 10 (hybrid_limit a))) of
                     Inl e \<Rightarrow> (Inr (error_result (''Error performing hybrid search: '' @ e)), s2)
                   | Inr xs \<Rightarrow> (Inr (success_result (JArr (map JObj xs))), s2))))"
  unfolding qdrant_hybrid_search_def Let_def js_defs formatted_unfold
  by (simp split: sum.splits prod.splits)

lemma find_unfold:
  "qdrant_find w a s =
     (case embed w (find_query a) s of
        (Inl e, s1) \<Rightarrow> (Inr (error_result (''Error searching information: '' @ e)), s1)
      | (Inr embedding, s1) \<Rightarrow>
          (let p = find_searchParams embedding (default_to 5 (find_limit a)) (find_filter a);
               s2 = s1\<lparr>calls := calls s1 @ [Search (COLLECTION_NAME w) p]\<rparr>
           in case qdrant_search w (COLLECTION_NAME w) p of
                Inl e \<Rightarrow> (Inr (error_result (''Error searching information: '' @ e)), s2)
              | Inr results \<Rightarrow>
                  (case map_results format_result results of
                     Inl e \<Rightarrow> (Inr (error_result (''Error searching information: '' @ e)), s2)
                   | Inr xs \<Rightarrow> (Inr (success_result (JArr (map JObj xs))), s2))))"
  unfolding qdrant_find_def Let_def js_defs formatted_unfold
  by (simp split: sum.splits prod.splits)

lemma filtered_unfold:
  "qdrant_filtered_search w a s =
     (let base = no_params\<lparr>sp_limit := default_to 10 (filtered_limit a),
                           sp_filter := Some (filtered_filters a), sp_with_payload := Some True\<rparr>
      in case (if default_to True (filtered_use_vector a) \<and> truthy (filtered_query a)
               then (case embed w (default_to [] (filtered_query a)) s of
                       (Inl e, s1) \<Rightarrow> (Inl e, s1)
                     | (Inr embedding, s1) \<Rightarrow> (Inr (base\<lparr>sp_vector := embedding\<rparr>), s1))
               else (Inr base, s)) of
           (Inl e, s1) \<Rightarrow> (Inr (error_result (''Error performing filtered search: '' @ e)), s1)
         | (Inr p, s1) \<Rightarrow>
             (let s2 = s1\<lparr>calls := calls s1 @ [Search (COLLECTION_NAME w) p]\<rparr>
              in case qdrant_search w (COLLECTION_NAME w) p of
                   Inl e \<Rightarrow> (Inr (error_result (''Error performing filtered search: '' @ e)), s2)
                 | Inr results \<Rightarrow>
                     (case map_results format_result results of
                        Inl e \<Rightarrow> (Inr (error_result (''Error performing filtered search: '' @ e)), s2)
                      | Inr xs \<Rightarrow> (Inr (success_result (JArr (map JObj xs))), s2))))"
  unfolding qdrant_filtered_search_def Let_def js_defs formatted_unfold
  by (simp split: sum.splits prod.splits)

lemma hybrid_trace:
  assumes "initialized s \<or> FastEmbed_create w = Inr ()"
    and "model_embed w [hybrid_query args] = Inr es"
  shows "new_calls s (snd (qdrant_hybrid_search w args s)) =
           (if initialized s then [] else [Create])
             @ [ModelEmbed [hybrid_query args],
                Search (COLLECTION_NAME w)
                  (hybrid_searchParams (index es 0) (hybrid_query args)
                     (default_to (7 / 10) (hybrid_vector_weight args))
                     (default_to (3 / 10) (hybrid_keyword_weight args))
                     (hybrid_filters args) (default_to 10 (hybrid_limit args)))]"
  using assms
  by (auto simp: hybrid_unfold embed_unfold Let_def new_calls_def split: sum.splits if_splits)

lemma find_success:
  assumes "qdrant_find w a s = (Inr r, s')" and "\<not> isError r"
  shows "\<exists>c p results items.
           Search c p \<in> set (new_calls s s') \<and> qdrant_search w c p = Inr results
         \<and> map_results format_result results = Inr items
         \<and> r = success_result (JArr (map JObj items))"
proof -
  from assms obtain v s1 results items where
    e: "embed w (find_query a) s = (Inr v, s1)"
    and f: "qdrant_search w (COLLECTION_NAME w)
              (find_searchParams v (default_to 5 (find_limit a)) (find_filter a)) = Inr results"
    and m: "map_results format_result results = Inr items"
    and r: "r = success_result (JArr (map JObj items))"
    and s': "s' = s1\<lparr>calls := calls s1 @ [Search (COLLECTION_NAME w)
              (find_searchParams v (default_to 5 (find_limit a)) (find_filter a))]\<rparr>"
    by (auto simp: find_unfold Let_def error_result_def split: sum.splits prod.splits)
  from e have "\<exists>pre. calls s1 = calls s @ pre"
    by (auto simp: embed_unfold split: if_splits sum.splits)
  with s' have "Search (COLLECTION_NAME w)
      (find_searchParams v (default_to 5 (find_limit a)) (find_filter a)) \<in> set (new_calls s s')"
    by (auto simp: new_calls_def)
  then show ?thesis using f m r by blast
qed

lemma hybrid_success:
  assumes "qdrant_hybrid_search w a s = (Inr r, s')" and "\<not> isError r"
  shows "\<exists>c p results items.
           Search c p \<in> set (new_calls s s') \<and> qdrant_search w c p = Inr results
         \<and> map_results format_result (slice0 results (default_to 10 (hybrid_limit a))) = Inr items
         \<and> r = success_result (JArr (map JObj items))"
proof -
  let ?p = "\<lambda>v. hybrid_searchParams v (hybrid_query a)
                     (default_to (7 / 10) (hybrid_vector_weight a))
                     (default_to (3 / 10) (hybrid_keyword_weight a))
                     (hybrid_filters a) (default_to 10 (hybrid_limit a))"
  from assms obtain v s1 results items where
    e: "embed w (hybrid_query a) s = (Inr v, s1)"
    and f: "qdrant_search w (COLLECTION_NAME w) (?p v) = Inr results"
    and m: "map_results format_result (slice0 results (default_to 10 (hybrid_limit a))) = Inr items"
    and r: "r = success_result (JArr (map JObj items))"
    and s': "s' = s1\<lparr>calls := calls s1 @ [Search (COLLECTION_NAME w) (?p v)]\<rparr>"
    by (auto simp: hybrid_unfold Let_def error_result_def split: sum.splits prod.splits)
  from e have "\<exists>pre. calls s1 = calls s @ pre"
    by (auto simp: embed_unfold split: if_splits sum.splits)
  with s' have "Search (COLLECTION_NAME w) (?p v) \<in> set (new_calls s s')"
    by (auto simp: new_calls_def)
  then show ?thesis using f m r by blast
qed

lemma filtered_success:
  assumes "qdrant_filtered_search w a s = (Inr r, s')" and "\<not> isError r"
  shows "\<exists>c p results items.
           Search c p \<in> set (new_calls s s') \<and> qdrant_search w c p = Inr results
         \<and> map_results format_result results = Inr items
         \<and> r = success_result (JArr (map JObj items))"
proof -
  let ?base = "no_params\<lparr>sp_limit := default_to 10 (filtered_limit a),
                           sp_filter := Some (filtered_filters a), sp_with_payload := Some True\<rparr>"
  let ?first = "if default_to True (filtered_use_vector a) \<and> truthy (filtered_query a)
               then (case embed w (default_to [] (filtered_query a)) s of
                       (Inl e, s1) \<Rightarrow> (Inl e, s1)
                     | (Inr embedding, s1) \<Rightarrow> (Inr (?base\<lparr>sp_vector := embedding\<rparr>), s1))
               else (Inr ?base, s)"
  from assms obtain p s1 results items where
    first: "?first = (Inr p, s1)"
    and f: "qdrant_search w (COLLECTION_NAME w) p = Inr results"
    and m: "map_results format_result results = Inr items"
    and r: "r = success_result (JArr (map JObj items))"
    and s': "s' = s1\<lparr>calls := calls s1 @ [Search (COLLECTION_NAME w) p]\<rparr>"
    unfolding filtered_unfold Let_def
    by (cases ?first) (auto simp: error_result_def split: sum.splits)
  from first have "\<exists>pre. calls s1 = calls s @ pre"
    by (auto simp: embed_unfold split: if_splits sum.splits)
  with s' have "Search (COLLECTION_NAME w) p \<in> set (new_calls s s')"
    by (auto simp: new_calls_def)
  then show ?thesis using f m r by blast
qed

lemma search_success:
  assumes "search_tool req" and "invoke w req s = (Inr r, s')" and "\<not> isError r"
  shows "\<exists>c p results items.
           Search c p \<in> set (new_calls s s') \<and> qdrant_search w c p = Inr results
         \<and> map_results format_result (retained req results) = Inr items
         \<and> r = success_result (JArr (map JObj items))"
proof (cases req)
  case (Find a)
  with assms find_success[of w a s r s'] show ?thesis by simp
next
  case (HybridSearch a)
  with assms hybrid_success[of w a s r s'] show ?thesis by simp
next
  case (FilteredSearch a)
  with assms filtered_success[of w a s r s'] show ?thesis by simp
qed (use assms in simp_all)

lemma json_defined: "json v = JUndefined \<longleftrightarrow> v = JUndefined"
  by (cases v) simp_all

lemma json_objects:
  "json (JArr (map JObj items)) =
     JArr (map (\<lambda>x. JObj (filter (\<lambda>(k, v). v \<noteq> JUndefined) (map (map_prod id json) x))) items)"
  by (simp add: comp_def)


subsection \<open>The batch store, step by step\<close>

lemma batch_run:
  assumes init_ok: "initialized s \<or> FastEmbed_create w = Inr ()"
    and emb: "model_embed w (map item_information (batch_items args)) = Inr es"
  shows "\<exists>s1. uuid_calls s1 = uuid_calls s
      \<and> new_calls s (snd (qdrant_batch_store w args s)) =
          (if initialized s then [] else [Create])
            @ [ModelEmbed (map item_information (batch_items args)),
               Upsert (default_to (COLLECTION_NAME w) (batch_collection_name args))
                 (fst (map_points w es 0 (batch_items args) s1))]
      \<and> fst (qdrant_batch_store w args s) =
          (case qdrant_upsert w (default_to (COLLECTION_NAME w) (batch_collection_name args))
                  (fst (map_points w es 0 (batch_items args) s1)) of
             Inl e \<Rightarrow> Inr (error_result (''Error batch storing information: '' @ e))
           | Inr u \<Rightarrow>
               Inr (success_result
                 (JObj [(''success'', JBool True),
                        (''message'', JStr (''Successfully stored '' @
                            digits (length (batch_items args)) @ '' items'')),
                        (''ids'', JArr (map (\<lambda>p. JStr (point_id p))
                            (fst (map_points w es 0 (batch_items args) s1))))])))"
proof (cases "initialized s")
  case True
  with emb show ?thesis
    apply (intro exI[of _ "s\<lparr>calls := calls s @ [ModelEmbed (map item_information (batch_items args))]\<rparr>"])
    apply (simp add: batch_unfold embedBatch_unfold Let_def new_calls_def map_points_calls
        map_points_length split: sum.splits)
    done
next
  case False
  with init_ok emb show ?thesis
    apply (intro exI[of _ "s\<lparr>calls := calls s @ [Create, ModelEmbed (map item_information (batch_items args))],
                           initialized := True\<rparr>"])
    apply (simp add: batch_unfold embedBatch_unfold Let_def new_calls_def map_points_calls
        map_points_length split: sum.splits)
    done
qed

lemma batch_embed_fails:
  assumes init_ok: "initialized s \<or> FastEmbed_create w = Inr ()"
    and emb: "model_embed w (map item_information (batch_items args)) = Inl m"
  shows "new_calls s (snd (qdrant_batch_store w args s)) =
          (if initialized s then [] else [Create])
            @ [ModelEmbed (map item_information (batch_items args))]"
  using assms
  by (auto simp: batch_unfold embedBatch_unfold Let_def new_calls_def split: sum.splits)

subsection \<open>The tools on the concrete worlds\<close>

lemma demo_init_ok: "initialized fresh_state \<or> FastEmbed_create demo_world = Inr ()"
  by (simp add: demo_defs)

lemma demo_batch_run:
  "qdrant_batch_store demo_world demo_batch fresh_state =
     (Inr (success_result
        (JObj [(''success'', JBool True),
               (''message'', JStr ''Successfully stored 3 items''),
               (''ids'', JArr [JStr ''uuid-0'', JStr ''uuid-1'', JStr ''mine''])])),
      \<lparr>initialized = True, uuid_calls = 2, date_calls = 3,
       calls = [Create, ModelEmbed [''a'', ''a'', ''a''], Upsert ''agent-ren3'' demo_points]\<rparr>)"
  by (simp add: batch_unfold embedBatch_unfold Let_def demo_defs demo_batch_def demo_items_def
      demo_points_def default_to_def truthy_def index_def)

lemma demo_batch_calls:
  "new_calls fresh_state (snd (qdrant_batch_store demo_world demo_batch fresh_state))
     = [Create, ModelEmbed [''a'', ''a'', ''a''], Upsert ''agent-ren3'' demo_points]"
  by (simp only: demo_batch_run snd_conv) (simp add: new_calls_def fresh_state_def)

lemma demo_batch_result:
  "fst (qdrant_batch_store demo_world demo_batch fresh_state)
     = Inr (success_result
        (JObj [(''success'', JBool True),
               (''message'', JStr ''Successfully stored 3 items''),
               (''ids'', JArr [JStr ''uuid-0'', JStr ''uuid-1'', JStr ''mine''])]))"
  by (simp only: demo_batch_run fst_conv)


lemma demo_find_run:
  "fst (qdrant_find demo_world demo_find fresh_state) = Inr (success_result first_hit)"
  by (simp add: find_unfold embed_unfold Let_def demo_defs default_to_def index_def
      find_searchParams_def no_params_def format_result_def get_prop_def first_hit_def)

subsection \<open>The session table and the shutdown loop\<close>

lemma server_fields [simp]:
  "transports (console_log m s) = transports s"
  "transports (console_error m s) = transports s"
  "transports (called c s) = transports s"
  "transport_calls (console_log m s) = transport_calls s"
  "transport_calls (console_error m s) = transport_calls s"
  "transport_calls (called c s) = transport_calls s @ [c]"
  "console (console_log m s) = console s @ [Log m]"
  "console (console_error m s) = console s @ [Error m]"
  "console (called c s) = console s"
  "exit_code (console_log m s) = exit_code s"
  "exit_code (console_error m s) = exit_code s"
  "exit_code (called c s) = exit_code s"
  by (simp_all add: console_log_def console_error_def called_def)

lemma read_prop_Own: "read_prop obj k = Own t \<longleftrightarrow> map_of obj k = Some t"
  by (auto simp: read_prop_def split: option.splits)

lemma map_of_delete_prop:
  "map_of (delete_prop k obj) k' = (if k' = k then None else map_of obj k')"
  by (induction obj) (auto simp: delete_prop_def)

lemma distinct_delete_prop:
  "distinct (map fst obj) \<Longrightarrow> distinct (map fst (delete_prop k obj))"
  by (simp add: delete_prop_def distinct_map_filter)

text \<open>One turn of the loop, by what the table holds under the key.\<close>

lemma close_each_closed:
  assumes "map_of (transports s) sid = Some t" and "transport_close k t = Inr u"
  shows "close_each k (sid # rest) s =
           close_each k rest
             ((called (Close t) (console_log (''Closing transport for session '' @ sid) s))
                \<lparr>transports := delete_prop sid (transports s)\<rparr>)"
  using assms by (simp add: read_prop_def Let_def)

lemma close_each_threw:
  assumes "map_of (transports s) sid = Some t" and "transport_close k t = Inl m"
  shows "close_each k (sid # rest) s =
           close_each k rest
             (console_error (''Error closing transport for session '' @ sid @ '': '' @ m)
                (called (Close t) (console_log (''Closing transport for session '' @ sid) s)))"
  using assms by (simp add: read_prop_def Let_def)

lemma close_each_absent:
  assumes "map_of (transports s) sid = None"
  shows "\<exists>m. close_each k (sid # rest) s =
           close_each k rest
             (console_error m (console_log (''Closing transport for session '' @ sid) s))"
  using assms by (auto simp: read_prop_def Let_def)

lemma close_each_exit: "exit_code (close_each k keys s) = exit_code s"
proof (induction keys arbitrary: s)
  case Nil
  then show ?case by simp
next
  case (Cons sid keys)
  show ?case
  proof (cases "map_of (transports s) sid")
    case None
    from close_each_absent[OF None, of k keys] Cons.IH show ?thesis by auto
  next
    case (Some t)
    then show ?thesis
      by (cases "transport_close k t")
         (simp_all add: close_each_closed close_each_threw Cons.IH del: close_each.simps(2))
  qed
qed

lemma close_each_console_mono: "set (console s) \<subseteq> set (console (close_each k keys s))"
proof (induction keys arbitrary: s)
  case Nil
  then show ?case by simp
next
  case (Cons sid keys)
  show ?case
  proof (cases "map_of (transports s) sid")
    case None
    from close_each_absent[OF None, of k keys] obtain m where
      "close_each k (sid # keys) s =
         close_each k keys (console_error m (console_log (''Closing transport for session '' @ sid) s))"
      by blast
    with Cons.IH[of "console_error m (console_log (''Closing transport for session '' @ sid) s)"]
    show ?thesis by auto
  next
    case (Some t)
    show ?thesis
    proof (cases "transport_close k t")
      case (Inl m)
      from Cons.IH[of "console_error (''Error closing transport for session '' @ sid @ '': '' @ m)
                (called (Close t) (console_log (''Closing transport for session '' @ sid) s))"]
      show ?thesis
        unfolding close_each_threw[OF Some Inl] by auto
    next
      case (Inr u)
      from Cons.IH[of "(called (Close t) (console_log (''Closing transport for session '' @ sid) s))
                \<lparr>transports := delete_prop sid (transports s)\<rparr>"]
      show ?thesis
        unfolding close_each_closed[OF Some Inr] by auto
    qed
  qed
qed

lemma close_each_transports:
  assumes "distinct (map fst (transports s))"
  shows "transports (close_each k keys s) =
           filter (\<lambda>(sid, t). \<not> (sid \<in> set keys \<and> transport_close k t = Inr ())) (transports s)"
  using assms
proof (induction keys arbitrary: s)
  case Nil
  then show ?case by simp
next
  case (Cons sid keys)
  note d = Cons.prems
  show ?case
  proof (cases "map_of (transports s) sid")
    case None
    then have absent: "sid \<notin> fst ` set (transports s)"
      by (simp add: map_of_eq_None_iff)
    from close_each_absent[OF None, of k keys] obtain m where
      step: "close_each k (sid # keys) s =
         close_each k keys (console_error m (console_log (''Closing transport for session '' @ sid) s))"
      by blast
    have "transports (close_each k (sid # keys) s) =
            filter (\<lambda>(sid, t). \<not> (sid \<in> set keys \<and> transport_close k t = Inr ())) (transports s)"
      unfolding step using Cons.IH[of "console_error m (console_log (''Closing transport for session '' @ sid) s)"] d
      by simp
    also have "\<dots> = filter (\<lambda>(sid', t). \<not> (sid' \<in> set (sid # keys) \<and> transport_close k t = Inr ())) (transports s)"
      using absent by (intro filter_cong) force+
    finally show ?thesis .
  next
    case (Some t)
    with d have entry: "\<And>b. (sid, b) \<in> set (transports s) \<Longrightarrow> b = t"
      by simp
    show ?thesis
    proof (cases "transport_close k t")
      case (Inl m)
      have "transports (close_each k (sid # keys) s) =
            filter (\<lambda>(sid, t). \<not> (sid \<in> set keys \<and> transport_close k t = Inr ())) (transports s)"
        unfolding close_each_threw[OF Some Inl]
        using Cons.IH[of "console_error (''Error closing transport for session '' @ sid @ '': '' @ m)
                (called (Close t) (console_log (''Closing transport for session '' @ sid) s))"] d
        by simp
      also have "\<dots> = filter (\<lambda>(sid', t). \<not> (sid' \<in> set (sid # keys) \<and> transport_close k t = Inr ())) (transports s)"
        using entry Inl by (intro filter_cong) force+
      finally show ?thesis .
    next
      case (Inr u)
      let ?s' = "(called (Close t) (console_log (''Closing transport for session '' @ sid) s))
                \<lparr>transports := delete_prop sid (transports s)\<rparr>"
      have d': "distinct (map fst (transports ?s'))"
        using d by (simp add: distinct_delete_prop)
      have "transports (close_each k (sid # keys) s) =
            filter (\<lambda>(sid, t). \<not> (sid \<in> set keys \<and> transport_close k t = Inr ()))
              (filter (\<lambda>(k', v'). k' \<noteq> sid) (transports s))"
        unfolding close_each_closed[OF Some Inr]
        using Cons.IH[OF d'] by (simp add: delete_prop_def)
      also have "\<dots> = filter (\<lambda>(sid', t). \<not> (sid' \<in> set (sid # keys) \<and> transport_close k t = Inr ())) (transports s)"
        unfolding filter_filter using entry Inr by (intro filter_cong) force+
      finally show ?thesis .
    qed
  qed
qed

lemma close_each_calls:
  assumes "distinct keys"
  shows "transport_calls (close_each k keys s) =
           transport_calls s
             @ concat (map (\<lambda>sid. case map_of (transports s) sid of
                                     Some t \<Rightarrow> [Close t] | None \<Rightarrow> []) keys)"
  using assms
proof (induction keys arbitrary: s)
  case Nil
  then show ?case by simp
next
  case (Cons sid keys)
  then have dk: "distinct keys" and fresh: "sid \<notin> set keys" by simp_all
  show ?case
  proof (cases "map_of (transports s) sid")
    case None
    from close_each_absent[OF None, of k keys] obtain m where
      step: "close_each k (sid # keys) s =
         close_each k keys (console_error m (console_log (''Closing transport for session '' @ sid) s))"
      by blast
    show ?thesis
      unfolding step using Cons.IH[OF dk] None by simp
  next
    case (Some t)
    show ?thesis
    proof (cases "transport_close k t")
      case (Inl m)
      show ?thesis
        unfolding close_each_threw[OF Some Inl] using Cons.IH[OF dk] Some by simp
    next
      case (Inr u)
      have "map (\<lambda>sid'. case map_of (delete_prop sid (transports s)) sid' of
                                     Some t \<Rightarrow> [Close t] | None \<Rightarrow> []) keys
                = map (\<lambda>sid'. case map_of (transports s) sid' of
                                     Some t \<Rightarrow> [Close t] | None \<Rightarrow> []) keys"
        using fresh by (intro map_cong) (auto simp: map_of_delete_prop)
      then have same: "concat (map (\<lambda>sid'. case map_of (delete_prop sid (transports s)) sid' of
                                     Some t \<Rightarrow> [Close t] | None \<Rightarrow> []) keys)
                = concat (map (\<lambda>sid'. case map_of (transports s) sid' of
                                     Some t \<Rightarrow> [Close t] | None \<Rightarrow> []) keys)"
        by (rule arg_cong)
      show ?thesis
        unfolding close_each_closed[OF Some Inr] using Cons.IH[OF dk] Some same by simp
    qed
  qed
qed

lemma close_each_logs_failure:
  assumes "distinct keys" and "sid \<in> set keys"
    and "map_of (transports s) sid = Some t" and "transport_close k t = Inl m"
  shows "Error (''Error closing transport for session '' @ sid @ '': '' @ m)
           \<in> set (console (close_each k keys s))"
  using assms
proof (induction keys arbitrary: s)
  case Nil
  then show ?case by simp
next
  case (Cons a keys)
  then have dk: "distinct keys" and fresh: "a \<notin> set keys" by simp_all
  show ?case
  proof (cases "a = sid")
    case True
    have "Error (''Error closing transport for session '' @ sid @ '': '' @ m)
            \<in> set (console (console_error (''Error closing transport for session '' @ sid @ '': '' @ m)
                (called (Close t) (console_log (''Closing transport for session '' @ sid) s))))"
      by simp
    with close_each_console_mono show ?thesis
      unfolding True close_each_threw[OF Cons.prems(3) Cons.prems(4)] by blast
  next
    case False
    with Cons.prems have later: "sid \<in> set keys" by simp
    show ?thesis
    proof (cases "map_of (transports s) a")
      case None
      from close_each_absent[OF None, of k keys] obtain e where
        step: "close_each k (a # keys) s =
           close_each k keys (console_error e (console_log (''Closing transport for session '' @ a) s))"
        by blast
      show ?thesis
        unfolding step using Cons.IH[OF dk later _ Cons.prems(4)] Cons.prems(3) by simp
    next
      case (Some t')
      show ?thesis
      proof (cases "transport_close k t'")
        case (Inl e)
        show ?thesis
          unfolding close_each_threw[OF Some Inl]
          using Cons.IH[OF dk later _ Cons.prems(4)] Cons.prems(3) by simp
      next
        case (Inr u)
        show ?thesis
          unfolding close_each_closed[OF Some Inr]
          using Cons.IH[OF dk later _ Cons.prems(4)] Cons.prems(3) False
          by (simp add: map_of_delete_prop)
      qed
    qed
  qed
qed

lemma closes_of_table:
  assumes "distinct (map fst obj)"
  shows "concat (map (\<lambda>sid. case map_of obj sid of Some t \<Rightarrow> [Close t] | None \<Rightarrow> []) (map fst obj))
           = map (\<lambda>(sid, t). Close t) obj"
proof -
  have "map (\<lambda>sid. case map_of obj sid of Some t \<Rightarrow> [Close t] | None \<Rightarrow> []) (map fst obj)
          = map (\<lambda>(sid, t). [Close t]) obj"
    unfolding map_map using assms by (intro map_cong) auto
  moreover have "concat (map (\<lambda>(sid, t). [Close t]) obj) = map (\<lambda>(sid, t). Close t) obj"
    by (induction obj) auto
  ultimately show ?thesis by (simp only:)
qed

text \<open>
  A POST for an id that the table does not hold and \<^verbatim>\<open>Object.prototype\<close> does not
  name is answered 404, and nothing else happens; so it is after a session was opened
  and its \<^verbatim>\<open>onclose\<close> ran.
\<close>

lemma post_unknown_session:
  assumes "sid \<noteq> []" and "map_of (transports s) sid = None" and "sid \<notin> set Object_prototype"
  shows "fst (post_messages k \<lparr>query_sessionId = Some sid, body = b\<rparr> s) = Send 404 ''Session not found''
       \<and> transports (snd (post_messages k \<lparr>query_sessionId = Some sid, body = b\<rparr> s)) = transports s
       \<and> transport_calls (snd (post_messages k \<lparr>query_sessionId = Some sid, body = b\<rparr> s))
           = transport_calls s"
  using assms by (simp add: post_messages_def Let_def truthy_def default_to_def read_prop_def)

lemma post_after_close:
  assumes "sid \<noteq> []" and "sid \<notin> set Object_prototype"
  shows "fst (post_messages k \<lparr>query_sessionId = Some sid, body = b\<rparr> (onclose sid s))
           = Send 404 ''Session not found''"
proof -
  have "map_of (transports (onclose sid s)) sid = None"
    by (simp add: onclose_def Let_def map_of_delete_prop)
  from post_unknown_session[OF assms(1) this assms(2)] show ?thesis by simp
qed

section \<open>The claims\<close>




text \<open>
  C2, as the code has it. When the query's embedding succeeds, a hybrid search makes one
  model call for the query and then one search of the configured collection, for twice
  the limit, with the embedding and the filters; it hands the two weights and the query
  text to the store unchanged when the keyword weight is above 0, and sends neither
  weights nor text when it is 0; the scores it returns are the store's; and what it
  formats is \<^verbatim>\<open>results.slice(0, limit)\<close>, the first \<open>limit\<close> hits (a fraction
  rounded down) for a limit of 0 or more.
\<close>

theorem C2_hybrid_search_pipeline:
  assumes run: "qdrant_hybrid_search w args s = (out, s')"
    and init_ok: "initialized s \<or> FastEmbed_create w = Inr ()"
    and emb: "model_embed w [hybrid_query args] = Inr es"
  shows "\<exists>p. new_calls s s' =
           (if initialized s then [] else [Create])
             @ [ModelEmbed [hybrid_query args], Search (COLLECTION_NAME w) p]
     \<and> sp_vector p = index es 0
     \<and> sp_limit p = 2 * default_to 10 (hybrid_limit args)
     \<and> sp_filter p = hybrid_filters args
     \<and> (if default_to (3 / 10) (hybrid_keyword_weight args) > 0
        then sp_params p = Some (default_to (7 / 10) (hybrid_vector_weight args),
                                default_to (3 / 10) (hybrid_keyword_weight args))
           \<and> sp_query p = Some (hybrid_query args)
        else sp_params p = None \<and> sp_query p = None)
     \<and> (\<forall>results. qdrant_search w (COLLECTION_NAME w) p = Inr results \<longrightarrow>
          (0 \<le> default_to 10 (hybrid_limit args) \<longrightarrow>
             slice0 results (default_to 10 (hybrid_limit args))
               = take (nat \<lfloor>default_to 10 (hybrid_limit args)\<rfloor>) results)
          \<and> (\<forall>items. map_results format_result (slice0 results (default_to 10 (hybrid_limit args)))
                        = Inr items \<longrightarrow>
                out = Inr (success_result (JArr (map JObj items)))
                \<and> map (\<lambda>x. get_prop x ''score'') items
                    = map hit_score (slice0 results (default_to 10 (hybrid_limit args)))))"
proof -
  let ?L = "default_to 10 (hybrid_limit args)"
  let ?p = "hybrid_searchParams (index es 0) (hybrid_query args)
              (default_to (7 / 10) (hybrid_vector_weight args))
              (default_to (3 / 10) (hybrid_keyword_weight args))
              (hybrid_filters args) ?L"
  have trace: "new_calls s s' =
           (if initialized s then [] else [Create])
             @ [ModelEmbed [hybrid_query args], Search (COLLECTION_NAME w) ?p]"
    using hybrid_trace[OF init_ok emb] run by simp
  have shape: "sp_vector ?p = index es 0 \<and> sp_limit ?p = 2 * ?L \<and> sp_filter ?p = hybrid_filters args"
    by (simp add: hybrid_searchParams_def no_params_def Let_def split: option.splits)
  have weights: "if default_to (3 / 10) (hybrid_keyword_weight args) > 0
        then sp_params ?p = Some (default_to (7 / 10) (hybrid_vector_weight args),
                                default_to (3 / 10) (hybrid_keyword_weight args))
           \<and> sp_query ?p = Some (hybrid_query args)
        else sp_params ?p = None \<and> sp_query ?p = None"
    by (simp add: hybrid_searchParams_def no_params_def Let_def split: option.splits)
  have result: "out = Inr (success_result (JArr (map JObj items)))"
    if "qdrant_search w (COLLECTION_NAME w) ?p = Inr results"
      and "map_results format_result (slice0 results ?L) = Inr items" for results items
    using run init_ok emb that
    by (auto simp: hybrid_unfold embed_unfold Let_def split: sum.splits if_splits)
  show ?thesis
    apply (rule exI[of _ ?p])
    using trace shape weights result map_results_props slice0_take
    by auto
qed

theorem C2_weighted_search_witness:
  "new_calls fresh_state (snd (qdrant_hybrid_search demo_world demo_hybrid_weighted fresh_state))
     = [Create, ModelEmbed [''weather color''],
        Search ''agent-ren3''
          (demo_hybrid_params\<lparr>sp_query := Some ''weather color'', sp_score_threshold := Some 0,
                               sp_params := Some (7 / 10, 3 / 10)\<rparr>)]
   \<and> fst (qdrant_hybrid_search demo_world demo_hybrid_weighted fresh_state)
       = Inr (success_result first_hit)"
proof -
  let ?run = "qdrant_hybrid_search demo_world demo_hybrid_weighted fresh_state"
  have run: "?run = (fst ?run, snd ?run)" by simp
  have init_ok: "initialized fresh_state \<or> FastEmbed_create demo_world = Inr ()"
    by (simp add: demo_defs)
  have emb: "model_embed demo_world [hybrid_query demo_hybrid_weighted] = Inr [[13]]"
    by (simp add: demo_defs demo_hybrid_weighted_def)
  from C2_hybrid_search_pipeline[OF run init_ok emb]
  obtain p where
    trace: "new_calls fresh_state (snd ?run) =
       (if initialized fresh_state then [] else [Create])
         @ [ModelEmbed [hybrid_query demo_hybrid_weighted], Search (COLLECTION_NAME demo_world) p]"
    and vec: "sp_vector p = index [[13]] 0"
    and lim: "sp_limit p = 2 * default_to 10 (hybrid_limit demo_hybrid_weighted)"
    and weights: "if default_to (3 / 10) (hybrid_keyword_weight demo_hybrid_weighted) > 0
        then sp_params p = Some (default_to (7 / 10) (hybrid_vector_weight demo_hybrid_weighted),
                                default_to (3 / 10) (hybrid_keyword_weight demo_hybrid_weighted))
           \<and> sp_query p = Some (hybrid_query demo_hybrid_weighted)
        else sp_params p = None \<and> sp_query p = None"
    and res: "\<forall>results. qdrant_search demo_world (COLLECTION_NAME demo_world) p = Inr results \<longrightarrow>
          (\<forall>items. map_results format_result
                      (slice0 results (default_to 10 (hybrid_limit demo_hybrid_weighted))) = Inr items \<longrightarrow>
                fst ?run = Inr (success_result (JArr (map JObj items))))"
    by blast
  have lim2: "sp_limit p = 2"
    using lim by (simp add: demo_hybrid_weighted_def default_to_def)
  have found: "qdrant_search demo_world (COLLECTION_NAME demo_world) p = Inr (take 2 demo_hits)"
    using lim2 by (simp add: demo_world_def demo_search_def)
  have fmt: "map_results format_result
               (slice0 (take 2 demo_hits) (default_to 10 (hybrid_limit demo_hybrid_weighted)))
             = Inr [[(''information'', JStr ''The sky is blue''),
                     (''metadata'', JObj [(''topic'', JStr ''weather'')]),
                     (''score'', JNum (9 / 10)),
                     (''timestamp'', JStr ''t0'')]]"
    by (simp add: demo_hits_def demo_hybrid_weighted_def default_to_def slice0_def to_integer_def
        format_result_def get_prop_def)
  from res found fmt have out: "fst ?run = Inr (success_result first_hit)"
    by (simp add: first_hit_def)
  have tr: "new_calls fresh_state (snd ?run)
     = [Create, ModelEmbed [''weather color''],
        Search ''agent-ren3''
          (demo_hybrid_params\<lparr>sp_query := Some ''weather color'', sp_score_threshold := Some 0,
                               sp_params := Some (7 / 10, 3 / 10)\<rparr>)]"
    using hybrid_trace[OF init_ok emb]
    by (simp add: demo_defs demo_hybrid_weighted_def demo_hybrid_params_def hybrid_searchParams_def
        no_params_def default_to_def index_def)
  from tr out show ?thesis by simp
qed

text \<open>
  C2 as stated fails where the keyword weight is 0: with weights 0.7 and 0 the one search
  request carries no scoring parameters at all.
\<close>

theorem C2_zero_keyword_weight_sends_no_weights:
  "new_calls fresh_state (snd (qdrant_hybrid_search demo_world demo_hybrid fresh_state))
     = [Create, ModelEmbed [''weather color''], Search ''agent-ren3'' demo_hybrid_params]
   \<and> sp_params demo_hybrid_params = None
   \<and> hybrid_vector_weight demo_hybrid = Some (7 / 10)
   \<and> hybrid_keyword_weight demo_hybrid = Some 0"
proof -
  have "initialized fresh_state \<or> FastEmbed_create demo_world = Inr ()"
    by (simp add: demo_defs)
  moreover have "model_embed demo_world [hybrid_query demo_hybrid] = Inr [[13]]"
    by (simp add: demo_defs demo_hybrid_def)
  ultimately show ?thesis
    using hybrid_trace[of fresh_state demo_world demo_hybrid "[[13]]"]
    by (simp add: demo_defs demo_hybrid_def demo_hybrid_params_def hybrid_searchParams_def
        no_params_def default_to_def index_def)
qed

text \<open>
  C3. Once the embedding client is initialised (or initialises), a batch store of \<open>N\<close>
  items makes exactly one model call, for the \<open>N\<close> texts in input order. When that call
  returns, exactly one upsert follows, of \<open>N\<close> points, the \<open>i\<close>-th carrying the
  \<open>i\<close>-th item's text and the \<open>i\<close>-th returned vector; and when the upsert succeeds
  the result lists \<open>N\<close> ids, the \<open>i\<close>-th being the id of the \<open>i\<close>-th point. Nothing
  depends on the texts being different.
\<close>

theorem C3_batch_store_pairs_by_position:
  assumes run: "qdrant_batch_store w args s = (out, s')"
    and init_ok: "initialized s \<or> FastEmbed_create w = Inr ()"
  shows "\<exists>rest. new_calls s s' =
           (if initialized s then [] else [Create])
             @ ModelEmbed (map item_information (batch_items args)) # rest
     \<and> (\<forall>c \<in> set rest. \<forall>texts. c \<noteq> ModelEmbed texts)
     \<and> (\<forall>es. model_embed w (map item_information (batch_items args)) = Inr es \<longrightarrow>
          (\<exists>ps. rest = [Upsert (default_to (COLLECTION_NAME w) (batch_collection_name args)) ps]
             \<and> length ps = length (batch_items args)
             \<and> (\<forall>i < length (batch_items args).
                   payload_information (ps ! i) = item_information (batch_items args ! i)
                   \<and> point_vector (ps ! i) = index es i)
             \<and> (qdrant_upsert w (default_to (COLLECTION_NAME w) (batch_collection_name args)) ps = Inr () \<longrightarrow>
                  (\<exists>ids. out = Inr (success_result
                      (JObj [(''success'', JBool True),
                             (''message'', JStr (''Successfully stored '' @
                                 digits (length (batch_items args)) @ '' items'')),
                             (''ids'', JArr ids)]))
                     \<and> length ids = length (batch_items args)
                     \<and> (\<forall>i < length (batch_items args). ids ! i = JStr (point_id (ps ! i)))))))"
proof (cases "model_embed w (map item_information (batch_items args))")
  case (Inl m)
  from batch_embed_fails[OF init_ok Inl] run Inl show ?thesis
    by (intro exI[of _ "[]"]) simp
next
  case (Inr es)
  let ?c = "default_to (COLLECTION_NAME w) (batch_collection_name args)"
  from batch_run[OF init_ok Inr] run obtain s1 where
    trace: "new_calls s s' =
          (if initialized s then [] else [Create])
            @ [ModelEmbed (map item_information (batch_items args)),
               Upsert ?c (fst (map_points w es 0 (batch_items args) s1))]"
    and out: "out =
          (case qdrant_upsert w ?c (fst (map_points w es 0 (batch_items args) s1)) of
             Inl e \<Rightarrow> Inr (error_result (''Error batch storing information: '' @ e))
           | Inr u \<Rightarrow>
               Inr (success_result
                 (JObj [(''success'', JBool True),
                        (''message'', JStr (''Successfully stored '' @
                            digits (length (batch_items args)) @ '' items'')),
                        (''ids'', JArr (map (\<lambda>p. JStr (point_id p))
                            (fst (map_points w es 0 (batch_items args) s1))))])))"
    by auto
  let ?ps = "fst (map_points w es 0 (batch_items args) s1)"
  have len: "length ?ps = length (batch_items args)"
    by (rule map_points_length)
  have pos: "payload_information (?ps ! i) = item_information (batch_items args ! i)
             \<and> point_vector (?ps ! i) = index es i" if "i < length (batch_items args)" for i
    using map_points_nth[OF that, of w es 0 s1] by simp
  have ids: "\<exists>ids. out = Inr (success_result
                      (JObj [(''success'', JBool True),
                             (''message'', JStr (''Successfully stored '' @
                                 digits (length (batch_items args)) @ '' items'')),
                             (''ids'', JArr ids)]))
                     \<and> length ids = length (batch_items args)
                     \<and> (\<forall>i < length (batch_items args). ids ! i = JStr (point_id (?ps ! i)))"
    if "qdrant_upsert w ?c ?ps = Inr ()"
    using that out len
    by (intro exI[of _ "map (\<lambda>p. JStr (point_id p)) ?ps"]) simp
  show ?thesis
    apply (rule exI[of _ "[Upsert ?c ?ps]"])
    using trace Inr len pos ids by auto
qed

theorem C3_identical_texts_witness:
  "new_calls fresh_state (snd (qdrant_batch_store demo_world demo_batch fresh_state))
     = [Create, ModelEmbed [''a'', ''a'', ''a''], Upsert ''agent-ren3'' demo_points]
   \<and> map payload_information demo_points = [''a'', ''a'', ''a'']
   \<and> fst (qdrant_batch_store demo_world demo_batch fresh_state)
     = Inr (success_result
        (JObj [(''success'', JBool True),
               (''message'', JStr ''Successfully stored 3 items''),
               (''ids'', JArr [JStr ''uuid-0'', JStr ''uuid-1'', JStr ''mine''])]))"
proof -
  let ?run = "qdrant_batch_store demo_world demo_batch fresh_state"
  have run: "?run = (fst ?run, snd ?run)" by simp
  from C3_batch_store_pairs_by_position[OF run demo_init_ok]
  obtain rest where
    trace: "new_calls fresh_state (snd ?run) =
       (if initialized fresh_state then [] else [Create])
         @ ModelEmbed (map item_information (batch_items demo_batch)) # rest"
    by (elim exE conjE)
  then have "rest = [Upsert ''agent-ren3'' demo_points]"
    unfolding demo_batch_calls by (simp add: fresh_state_def)
  with trace have "new_calls fresh_state (snd ?run)
     = [Create, ModelEmbed [''a'', ''a'', ''a''], Upsert ''agent-ren3'' demo_points]"
    by (simp add: fresh_state_def demo_batch_def demo_items_def)
  moreover have "map payload_information demo_points = [''a'', ''a'', ''a'']"
    by (simp add: demo_points_def)
  ultimately show ?thesis
    using demo_batch_result by simp
qed

text \<open>
  C4. Whatever tool is invoked, the invocation returns one result and never an escaping
  error; and whenever one of the calls it made to the embedding model or to the vector
  store failed with message \<open>m\<close>, that result has the error flag set and holds one
  content item, of type text, whose text is the tool's prefix followed by \<open>m\<close>.
\<close>

theorem C4_collaborator_failure_becomes_error_result:
  assumes "invoke w req s = (out, s')"
  shows "\<exists>r. out = Inr r \<and>
    (\<forall>c \<in> set (new_calls s s'). \<forall>m. failure_of w c = Some m \<longrightarrow>
       isError r
       \<and> content r = [\<lparr>content_type = ''text'', content_text = Template (error_prefix req @ m)\<rparr>])"
proof (cases req)
  case (Store a)
  with assms store_catches[of w a s out s'] show ?thesis by simp
next
  case (Find a)
  with assms find_catches[of w a s out s'] show ?thesis by simp
next
  case (HybridSearch a)
  with assms hybrid_catches[of w a s out s'] show ?thesis by simp
next
  case (FilteredSearch a)
  with assms filtered_catches[of w a s out s'] show ?thesis by simp
next
  case (CollectionStats a)
  with assms stats_catches[of w a s out s'] show ?thesis by simp
next
  case ListCollections
  with assms list_catches[of w s out s'] show ?thesis by simp
next
  case (BatchStore a)
  with assms batch_catches[of w a s out s'] show ?thesis by simp
qed

theorem C4_search_timeout_witness:
  "fst (invoke timeout_world (Find demo_find) fresh_state)
     = Inr \<lparr>content = [\<lparr>content_type = ''text'',
                         content_text = Template ''Error searching information: timeout''\<rparr>],
            isError = True\<rparr>"
proof -
  let ?p = "find_searchParams (Some [13]) 1 None"
  have run: "invoke timeout_world (Find demo_find) fresh_state =
      (fst (invoke timeout_world (Find demo_find) fresh_state),
       snd (invoke timeout_world (Find demo_find) fresh_state))"
    by simp
  have made: "Search ''agent-ren3'' ?p
      \<in> set (new_calls fresh_state (snd (invoke timeout_world (Find demo_find) fresh_state)))"
    by (simp add: qdrant_find_def Let_def js_defs embed_unfold new_calls_def demo_defs
        default_to_def index_def)
  have failed: "failure_of timeout_world (Search ''agent-ren3'' ?p) = Some ''timeout''"
    by (simp add: message_of_def demo_defs)
  from C4_collaborator_failure_becomes_error_result[OF run]
  obtain r where out: "fst (invoke timeout_world (Find demo_find) fresh_state) = Inr r"
    and all: "\<forall>c \<in> set (new_calls fresh_state (snd (invoke timeout_world (Find demo_find) fresh_state))).
                \<forall>m. failure_of timeout_world c = Some m \<longrightarrow>
                  isError r
                  \<and> content r = [\<lparr>content_type = ''text'',
                                     content_text = Template (error_prefix (Find demo_find) @ m)\<rparr>]"
    by (elim exE conjE)
  from all made failed have "isError r
      \<and> content r = [\<lparr>content_type = ''text'',
                         content_text = Template (error_prefix (Find demo_find) @ ''timeout'')\<rparr>]"
    by blast
  then show ?thesis using out by (cases r) simp
qed

text \<open>
  C5, as the code has it. Whichever of find, hybrid search and filtered search was
  invoked, a successful result is the JSON text of a list that holds one object for each
  hit the tool retained of the store's answer (all of them, or the slice that hybrid
  search keeps), in order, made by one mapping: the properties information, metadata,
  score and timestamp, in this order, read from the hit as \<open>format_result\<close> reads
  them, each written exactly when its value is defined. So an item has exactly the four
  properties when the hit's payload holds all three fields and the hit has a score.
\<close>

theorem C5_search_results_share_one_mapping:
  assumes "search_tool req" and "invoke w req s = (Inr r, s')" and "\<not> isError r"
  shows "\<exists>c p results v objs.
           Search c p \<in> set (new_calls s s') \<and> qdrant_search w c p = Inr results
         \<and> r = success_result v \<and> json v = JArr objs
         \<and> length objs = length (retained req results)
         \<and> (\<forall>i < length objs. \<exists>information metadata timestamp props.
               format_result (retained req results ! i) =
                 Inr [(''information'', information), (''metadata'', metadata),
                      (''score'', hit_score (retained req results ! i)),
                      (''timestamp'', timestamp)]
             \<and> objs ! i = JObj props
             \<and> props = filter (\<lambda>(k, x). x \<noteq> JUndefined)
                         [(''information'', json information), (''metadata'', json metadata),
                          (''score'', json (hit_score (retained req results ! i))),
                          (''timestamp'', json timestamp)]
             \<and> (information \<noteq> JUndefined \<and> metadata \<noteq> JUndefined
                  \<and> hit_score (retained req results ! i) \<noteq> JUndefined \<and> timestamp \<noteq> JUndefined
                 \<longrightarrow> map fst props = [''information'', ''metadata'', ''score'', ''timestamp'']))"
proof -
  from search_success[OF assms] obtain c p results items where
    made: "Search c p \<in> set (new_calls s s')"
    and found: "qdrant_search w c p = Inr results"
    and mapped: "map_results format_result (retained req results) = Inr items"
    and r: "r = success_result (JArr (map JObj items))"
    by blast
  let ?kept = "retained req results"
  let ?emit = "\<lambda>x. JObj (filter (\<lambda>(k, v). v \<noteq> JUndefined) (map (map_prod id json) x))"
  let ?objs = "map ?emit items"
  from map_results_Inr[OF mapped]
  have all2: "list_all2 (\<lambda>h x. format_result h = Inr x) ?kept items" .
  then have len: "length items = length ?kept"
    by (simp add: list_all2_lengthD)
  have each: "\<exists>information metadata timestamp props.
               format_result (?kept ! i) =
                 Inr [(''information'', information), (''metadata'', metadata),
                      (''score'', hit_score (?kept ! i)), (''timestamp'', timestamp)]
             \<and> ?objs ! i = JObj props
             \<and> props = filter (\<lambda>(k, x). x \<noteq> JUndefined)
                         [(''information'', json information), (''metadata'', json metadata),
                          (''score'', json (hit_score (?kept ! i))),
                          (''timestamp'', json timestamp)]
             \<and> (information \<noteq> JUndefined \<and> metadata \<noteq> JUndefined
                  \<and> hit_score (?kept ! i) \<noteq> JUndefined \<and> timestamp \<noteq> JUndefined
                 \<longrightarrow> map fst props = [''information'', ''metadata'', ''score'', ''timestamp''])"
    if i: "i < length ?objs" for i
  proof -
    from i len have ik: "i < length ?kept" and ii: "i < length items" by simp_all
    from all2 ik have fmt: "format_result (?kept ! i) = Inr (items ! i)"
      using list_all2_nthD[of "\<lambda>h x. format_result h = Inr x" ?kept items i] by simp
    from format_result_shape[OF this] obtain information metadata timestamp where
      x: "items ! i = [(''information'', information), (''metadata'', metadata),
                       (''score'', hit_score (?kept ! i)), (''timestamp'', timestamp)]"
      by blast
    let ?props = "filter (\<lambda>(k, x). x \<noteq> JUndefined)
                         [(''information'', json information), (''metadata'', json metadata),
                          (''score'', json (hit_score (?kept ! i))),
                          (''timestamp'', json timestamp)]"
    have obj: "?objs ! i = JObj ?props"
      using ii by (simp add: x)
    have full: "map fst ?props = [''information'', ''metadata'', ''score'', ''timestamp'']"
      if "information \<noteq> JUndefined \<and> metadata \<noteq> JUndefined
          \<and> hit_score (?kept ! i) \<noteq> JUndefined \<and> timestamp \<noteq> JUndefined"
      using that by (simp add: json_defined)
    from fmt x obj full show ?thesis by auto
  qed
  have "json (JArr (map JObj items)) = JArr ?objs"
    by (rule json_objects)
  moreover have "length ?objs = length ?kept"
    using len by simp
  ultimately show ?thesis
    using made found r each by blast
qed

theorem C5_find_shape_witness:
  "search_tool (Find demo_find)
   \<and> invoke demo_world (Find demo_find) fresh_state
       = (Inr (success_result first_hit), snd (invoke demo_world (Find demo_find) fresh_state))
   \<and> \<not> isError (success_result first_hit)
   \<and> json first_hit = first_hit
   \<and> (\<exists>v objs. success_result first_hit = success_result v \<and> json v = JArr objs
        \<and> length objs = 1)"
proof -
  have tool: "search_tool (Find demo_find)" by simp
  have run: "invoke demo_world (Find demo_find) fresh_state
       = (Inr (success_result first_hit), snd (invoke demo_world (Find demo_find) fresh_state))"
    using demo_find_run by (simp add: prod_eq_iff)
  have ok: "\<not> isError (success_result first_hit)"
    by (simp add: success_result_def)
  have written: "json first_hit = first_hit"
    by (simp add: first_hit_def)
  from C5_search_results_share_one_mapping[OF tool run ok]
  obtain c p results v objs where
    "qdrant_search demo_world c p = Inr results"
    "Search c p \<in> set (new_calls fresh_state (snd (invoke demo_world (Find demo_find) fresh_state)))"
    "success_result first_hit = success_result v" "json v = JArr objs"
    "length objs = length (retained (Find demo_find) results)"
    by (elim exE conjE)
  moreover from this(3) have "v = first_hit"
    by (simp add: success_result_def)
  ultimately have "\<exists>v objs. success_result first_hit = success_result v \<and> json v = JArr objs
        \<and> length objs = 1"
    using written by (auto simp: first_hit_def)
  with tool run ok written show ?thesis by blast
qed

text \<open>
  C5 as stated fails for a hit whose payload lacks a field: where the store holds a point
  with nothing but the information, find returns one item with the properties
  information and score, and neither metadata nor timestamp.
\<close>

theorem C5_sparse_payload_loses_properties:
  "fst (qdrant_find sparse_world demo_find fresh_state)
     = Inr (success_result
         (JArr [JObj [(''information'', JStr ''x''), (''metadata'', JUndefined),
                      (''score'', JNum (1 / 2)), (''timestamp'', JUndefined)]]))
   \<and> json (JArr [JObj [(''information'', JStr ''x''), (''metadata'', JUndefined),
                       (''score'', JNum (1 / 2)), (''timestamp'', JUndefined)]])
     = JArr [JObj [(''information'', JStr ''x''), (''score'', JNum (1 / 2))]]"
  by (simp add: find_unfold embed_unfold Let_def demo_defs sparse_world_def default_to_def
      index_def find_searchParams_def no_params_def format_result_def get_prop_def)

text \<open>
  C6, at an id that no session ever had: with an empty session table, a POST to
  /messages for the session id \<^verbatim>\<open>constructor\<close> reads the member that the table
  inherits from \<^verbatim>\<open>Object.prototype\<close>, takes it for a transport, fails to call
  \<^verbatim>\<open>handlePostMessage\<close> on it, and answers 500 where 404 is due.
\<close>

theorem C6_inherited_name_answers_500:
  "fst (post_messages k \<lparr>query_sessionId = Some ''constructor'', body = b\<rparr> (s\<lparr>transports := []\<rparr>))
     = Send 500 ''Error handling request''"
  by (simp add: post_messages_def console_log_def console_error_def Let_def truthy_def
      read_prop_def Object_prototype_def default_to_def handling_failed_def)

text \<open>
  C7. A POST to /messages without a session id (none at all, or an empty one, which the
  test \<^verbatim>\<open>!sessionId\<close> takes alike) is answered 400 at once; the session table is
  as it was, no transport was called and no session was created.
\<close>

theorem C7_missing_sessionId_is_bad_request:
  assumes "\<not> truthy (query_sessionId req)"
  shows "fst (post_messages k req s) = Send 400 ''Missing sessionId parameter''
       \<and> transports (snd (post_messages k req s)) = transports s
       \<and> transport_calls (snd (post_messages k req s)) = transport_calls s
       \<and> created (snd (post_messages k req s)) = created s"
  using assms by (simp add: post_messages_def console_log_def console_error_def Let_def)

theorem C7_no_sessionId_witness:
  "fst (post_messages demo_sdk \<lparr>query_sessionId = None, body = JNull\<rparr>
          (no_sessions\<lparr>transports := [(''session-0'', SSEServerTransport ''session-0'')]\<rparr>))
     = Send 400 ''Missing sessionId parameter''
   \<and> transports (snd (post_messages demo_sdk \<lparr>query_sessionId = None, body = JNull\<rparr>
          (no_sessions\<lparr>transports := [(''session-0'', SSEServerTransport ''session-0'')]\<rparr>)))
     = [(''session-0'', SSEServerTransport ''session-0'')]"
  using C7_missing_sessionId_is_bad_request
    [of "\<lparr>query_sessionId = None, body = JNull\<rparr>" demo_sdk
        "no_sessions\<lparr>transports := [(''session-0'', SSEServerTransport ''session-0'')]\<rparr>"]
  by (simp add: truthy_def)

text \<open>
  C8. Shutdown calls \<^verbatim>\<open>close\<close> once on every transport of the session table, in
  table order, whatever the earlier calls did; the sessions left in the table are exactly
  those whose close threw; each such error is written to the console with the session's
  id; and the handler goes on to exit with code 0.
\<close>

theorem C8_shutdown_closes_every_session:
  assumes "distinct (map fst (transports s))"
  shows "transport_calls (shutdown k s) = transport_calls s @ map (\<lambda>(sid, t). Close t) (transports s)
       \<and> transports (shutdown k s) = filter (\<lambda>(sid, t). transport_close k t \<noteq> Inr ()) (transports s)
       \<and> (\<forall>(sid, t) \<in> set (transports s). \<forall>m. transport_close k t = Inl m \<longrightarrow>
            Error (''Error closing transport for session '' @ sid @ '': '' @ m)
              \<in> set (console (shutdown k s)))
       \<and> exit_code (shutdown k s) = Some 0"
proof -
  let ?s1 = "console_log ''Shutting down server...'' s"
  let ?keys = "map fst (transports s)"
  have d1: "distinct (map fst (transports ?s1))" using assms by simp
  have calls: "transport_calls (shutdown k s) = transport_calls s @ map (\<lambda>(sid, t). Close t) (transports s)"
    using close_each_calls[OF assms, of k ?s1] closes_of_table[OF assms]
    by (simp add: shutdown_def Let_def)
  have "transports (shutdown k s) =
          filter (\<lambda>(sid, t). \<not> (sid \<in> set ?keys \<and> transport_close k t = Inr ())) (transports s)"
    using close_each_transports[OF d1, of k ?keys] by (simp add: shutdown_def Let_def)
  also have "\<dots> = filter (\<lambda>(sid, t). transport_close k t \<noteq> Inr ()) (transports s)"
    by (intro filter_cong) force+
  finally have table: "transports (shutdown k s) =
      filter (\<lambda>(sid, t). transport_close k t \<noteq> Inr ()) (transports s)" .
  have logged: "Error (''Error closing transport for session '' @ sid @ '': '' @ m)
              \<in> set (console (shutdown k s))"
    if "(sid, t) \<in> set (transports s)" "transport_close k t = Inl m" for sid t m
  proof -
    from that(1) assms have "map_of (transports ?s1) sid = Some t" "sid \<in> set ?keys"
      by (auto intro: rev_image_eqI)
    from close_each_logs_failure[OF assms this(2) this(1) that(2)]
    show ?thesis by (simp add: shutdown_def Let_def)
  qed
  have exit: "exit_code (shutdown k s) = Some 0"
    by (simp add: shutdown_def Let_def)
  from calls table logged exit show ?thesis by blast
qed

theorem C8_stuck_session_witness:
  "distinct (map fst (transports three_sessions))
   \<and> transport_calls (shutdown demo_sdk three_sessions)
       = [Close (SSEServerTransport ''session-0''), Close (SSEServerTransport ''session-1''),
          Close (SSEServerTransport ''session-2'')]
   \<and> transports (shutdown demo_sdk three_sessions)
       = [(''session-1'', SSEServerTransport ''session-1'')]
   \<and> exit_code (shutdown demo_sdk three_sessions) = Some 0"
proof -
  have d: "distinct (map fst (transports three_sessions))"
    by (simp add: three_sessions_def no_sessions_def)
  from C8_shutdown_closes_every_session[OF d, of demo_sdk] d show ?thesis
    by (simp add: three_sessions_def no_sessions_def demo_sdk_def)
qed

text \<open>
  C9. In every run of the store tool, whatever its arguments (also an \<^verbatim>\<open>id\<close> among
  them), every point it upserts goes to the configured collection alone under the id
  that \<^verbatim>\<open>crypto.randomUUID()\<close> returned to this call; and a successful result
  reports that id, one UUID having been drawn.
\<close>

theorem C9_store_id_is_server_generated:
  assumes "qdrant_store w args s = (out, s')"
  shows "(\<forall>c ps. Upsert c ps \<in> set (new_calls s s') \<longrightarrow>
            c = COLLECTION_NAME w \<and> map point_id ps = [randomUUID w (uuid_calls s)])
       \<and> (\<forall>r. out = Inr r \<and> \<not> isError r \<longrightarrow>
            (\<exists>ps. Upsert (COLLECTION_NAME w) ps \<in> set (new_calls s s'))
            \<and> uuid_calls s' = Suc (uuid_calls s)
            \<and> r = success_result
                 (JObj [(''success'', JBool True), (''id'', JStr (randomUUID w (uuid_calls s)))]))"
  using assms
  by (auto simp: store_unfold Let_def embed_unfold new_calls_def error_result_def success_result_def
      split: sum.splits if_splits)

theorem C9_client_id_ignored_witness:
  "Upsert ''agent-ren3''
     [\<lparr>point_id = ''uuid-0'', point_vector = Some [15],
       payload_information = ''The sky is blue'',
       payload_metadata = [(''topic'', JStr ''weather'')],
       payload_timestamp = ''day-0''\<rparr>]
     \<in> set (new_calls fresh_state (snd (qdrant_store demo_world demo_store fresh_state)))
   \<and> fst (qdrant_store demo_world demo_store fresh_state)
       = Inr (success_result (JObj [(''success'', JBool True), (''id'', JStr ''uuid-0'')]))"
proof -
  have run: "qdrant_store demo_world demo_store fresh_state =
      (fst (qdrant_store demo_world demo_store fresh_state),
       snd (qdrant_store demo_world demo_store fresh_state))"
    by simp
  have made: "Upsert ''agent-ren3''
     [\<lparr>point_id = ''uuid-0'', point_vector = Some [15],
       payload_information = ''The sky is blue'',
       payload_metadata = [(''topic'', JStr ''weather'')],
       payload_timestamp = ''day-0''\<rparr>]
     \<in> set (new_calls fresh_state (snd (qdrant_store demo_world demo_store fresh_state)))"
    by (simp add: store_unfold Let_def embed_unfold new_calls_def demo_defs default_to_def index_def)
  have res: "\<exists>r. fst (qdrant_store demo_world demo_store fresh_state) = Inr r \<and> \<not> isError r"
    by (simp add: store_unfold Let_def embed_unfold demo_defs success_result_def)
  have u0: "randomUUID demo_world (uuid_calls fresh_state) = ''uuid-0''"
    by (simp add: demo_defs)
  from C9_store_id_is_server_generated[OF run] res u0 made show ?thesis
    by auto
qed

text \<open>
  C10. In a batch store whose embedding succeeds, an item whose id is the empty string is
  upserted under the UUID that its own call of \<^verbatim>\<open>crypto.randomUUID()\<close> returned
  (one call per item without a usable id, in input order), and on success the returned
  list holds that UUID at the item's position; so the empty string is not there, UUIDs
  being non-empty.
\<close>

theorem C10_empty_id_is_replaced:
  assumes run: "qdrant_batch_store w args s = (out, s')"
    and init_ok: "initialized s \<or> FastEmbed_create w = Inr ()"
    and emb: "model_embed w (map item_information (batch_items args)) = Inr es"
    and i: "i < length (batch_items args)"
    and empty: "item_id (batch_items args ! i) = Some []"
  shows "\<exists>ps. Upsert (default_to (COLLECTION_NAME w) (batch_collection_name args)) ps
                 \<in> set (new_calls s s')
     \<and> point_id (ps ! i) =
         randomUUID w (uuid_calls s
            + length (filter (\<lambda>it. \<not> truthy (item_id it)) (take i (batch_items args))))
     \<and> (qdrant_upsert w (default_to (COLLECTION_NAME w) (batch_collection_name args)) ps = Inr () \<longrightarrow>
          (\<exists>ids. out = Inr (success_result
              (JObj [(''success'', JBool True),
                     (''message'', JStr (''Successfully stored '' @
                         digits (length (batch_items args)) @ '' items'')),
                     (''ids'', JArr ids)]))
             \<and> ids ! i = JStr (randomUUID w (uuid_calls s
                  + length (filter (\<lambda>it. \<not> truthy (item_id it)) (take i (batch_items args)))))
             \<and> (randomUUID w (uuid_calls s
                  + length (filter (\<lambda>it. \<not> truthy (item_id it)) (take i (batch_items args)))) \<noteq> []
                 \<longrightarrow> ids ! i \<noteq> JStr [])))"
proof -
  let ?c = "default_to (COLLECTION_NAME w) (batch_collection_name args)"
  let ?n = "uuid_calls s + length (filter (\<lambda>it. \<not> truthy (item_id it)) (take i (batch_items args)))"
  from batch_run[OF init_ok emb] run obtain s1 where
    u: "uuid_calls s1 = uuid_calls s"
    and trace: "new_calls s s' =
          (if initialized s then [] else [Create])
            @ [ModelEmbed (map item_information (batch_items args)),
               Upsert ?c (fst (map_points w es 0 (batch_items args) s1))]"
    and out: "out =
          (case qdrant_upsert w ?c (fst (map_points w es 0 (batch_items args) s1)) of
             Inl e \<Rightarrow> Inr (error_result (''Error batch storing information: '' @ e))
           | Inr u \<Rightarrow>
               Inr (success_result
                 (JObj [(''success'', JBool True),
                        (''message'', JStr (''Successfully stored '' @
                            digits (length (batch_items args)) @ '' items'')),
                        (''ids'', JArr (map (\<lambda>p. JStr (point_id p))
                            (fst (map_points w es 0 (batch_items args) s1))))])))"
    by auto
  let ?ps = "fst (map_points w es 0 (batch_items args) s1)"
  have len: "length ?ps = length (batch_items args)"
    by (rule map_points_length)
  from empty have falsy: "\<not> truthy (item_id (batch_items args ! i))"
    by (simp add: truthy_def)
  from map_points_nth[OF i, of w es 0 s1] falsy u
  have id: "point_id (?ps ! i) = randomUUID w ?n"
    by simp
  have made: "Upsert ?c ?ps \<in> set (new_calls s s')"
    using trace by simp
  have ids: "\<exists>ids. out = Inr (success_result
              (JObj [(''success'', JBool True),
                     (''message'', JStr (''Successfully stored '' @
                         digits (length (batch_items args)) @ '' items'')),
                     (''ids'', JArr ids)]))
             \<and> ids ! i = JStr (randomUUID w ?n)
             \<and> (randomUUID w ?n \<noteq> [] \<longrightarrow> ids ! i \<noteq> JStr [])"
    if "qdrant_upsert w ?c ?ps = Inr ()"
    using that out len i id
    by (intro exI[of _ "map (\<lambda>p. JStr (point_id p)) ?ps"]) simp
  from made id ids show ?thesis by blast
qed

theorem C10_empty_id_witness:
  "item_id (batch_items demo_batch ! 1) = Some []
   \<and> Upsert ''agent-ren3'' demo_points
       \<in> set (new_calls fresh_state (snd (qdrant_batch_store demo_world demo_batch fresh_state)))
   \<and> point_id (demo_points ! 1) = ''uuid-1''
   \<and> fst (qdrant_batch_store demo_world demo_batch fresh_state)
     = Inr (success_result
        (JObj [(''success'', JBool True),
               (''message'', JStr ''Successfully stored 3 items''),
               (''ids'', JArr [JStr ''uuid-0'', JStr ''uuid-1'', JStr ''mine''])]))"
proof -
  let ?run = "qdrant_batch_store demo_world demo_batch fresh_state"
  have run: "?run = (fst ?run, snd ?run)" by simp
  have emb: "model_embed demo_world (map item_information (batch_items demo_batch))
               = Inr [[1], [1], [1]]"
    by (simp add: demo_defs demo_batch_def demo_items_def)
  have i: "(1::nat) < length (batch_items demo_batch)"
    by (simp add: demo_batch_def demo_items_def)
  have empty: "item_id (batch_items demo_batch ! 1) = Some []"
    by (simp add: demo_batch_def demo_items_def)
  from C10_empty_id_is_replaced[OF run demo_init_ok emb i empty]
  obtain ps where
    "Upsert (default_to (COLLECTION_NAME demo_world) (batch_collection_name demo_batch)) ps
       \<in> set (new_calls fresh_state (snd ?run))"
    by (elim exE conjE)
  then have "ps = demo_points"
    unfolding demo_batch_calls by simp
  then have "Upsert ''agent-ren3'' demo_points \<in> set (new_calls fresh_state (snd ?run))"
    unfolding demo_batch_calls by simp
  moreover have "point_id (demo_points ! 1) = ''uuid-1''"
    by (simp add: demo_points_def)
  ultimately show ?thesis
    using empty demo_batch_result by simp
qed

end
